theory Spec2Isabelle
  imports Main "HOL-Library.Word"
begin

text \<open>
  A shallow embedding of \<open>c++/h5/array_interface.cpp\<close>, the layer that translates an array
  view (element type, rank, hyperslab, total extents, data pointer) into dataspaces, datasets
  and attributes of the HDF5 library, and of the properties its specification states.
\<close>

section \<open>Stride decomposition: \<open>get_L_tot_and_strides_h5\<close>\<close>

text \<open>
  The C++ function works on two 64-bit integer types (on the LP64 platforms of the library):
  \<open>long\<close> (signed, the type of the input strides, of \<open>total_size\<close> and of the local \<open>L\<close>)
  and \<open>hsize_t\<close> (unsigned, the element type of the vectors \<open>v_t\<close>, which the code passes
  to \<open>H5Screate_simple\<close> and compares with \<open>hsize_t{1}\<close>).  Both are modelled as \<open>64 word\<close>: a
  conversion between them keeps the bit pattern, \<open>sint\<close> reads a \<open>long\<close>, \<open>unat\<close> and
  \<open>uint\<close> read an \<open>hsize_t\<close>.  In \<open>strides_h5[v] /= L\<close> the signed operand is converted
  to the unsigned type, so the division is the unsigned one (\<open>div\<close> on words).
\<close>

type_synonym long = "64 word"
type_synonym hsize_t = "64 word"
type_synonym v_t = "hsize_t list"

text \<open>
  Failures of the code are values: \<open>Length_error\<close> is the exception of \<open>std::vector\<close> for
  a negative size, \<open>Out_of_bounds\<close> a read past the end of the stride array,
  \<open>Division_by_zero\<close> the integer division by zero, \<open>Runtime_error\<close> a
  \<open>std::runtime_error\<close> thrown by the code with its message, and \<open>Propagated\<close> an
  exception that leaves a callee outside this file.
\<close>

datatype error =
    Length_error
  | Out_of_bounds
  | Division_by_zero
  | Runtime_error string
  | Propagated string

text \<open>
  \<open>std::gcd(L, strides_h5[v])\<close> with \<open>L\<close> of type \<open>long\<close> and the second argument of
  type \<open>hsize_t\<close>, as the C++ standard defines it: the result type is the common type
  (unsigned 64 bit) and the result is the greatest common divisor of \<open>|L|\<close> and the second
  argument.
\<close>

definition std_gcd :: "long \<Rightarrow> hsize_t \<Rightarrow> hsize_t" where
  "std_gcd m n = word_of_nat (gcd (unat (if sint m < 0 then - m else m)) (unat n))"

text \<open>
  \<open>for (int v = u - 1; v >= 0; --v) L = std::gcd(L, strides_h5[v]);\<close>
  The second argument counts the iterations that are left: \<open>gcd_loop s (v + 1) L\<close> is the
  loop entered with index \<open>v\<close>.
\<close>

fun gcd_loop :: "v_t \<Rightarrow> nat \<Rightarrow> long \<Rightarrow> long" where
  "gcd_loop strides_h5 0 L = L"
| "gcd_loop strides_h5 (Suc v) L = gcd_loop strides_h5 v (std_gcd L (strides_h5 ! v))"

text \<open>
  \<open>for (int v = u; v >= 0; --v) strides_h5[v] /= L;\<close>
  A division by \<open>L = 0\<close> is the failure \<open>Division_by_zero\<close>.
\<close>

fun div_loop :: "v_t \<Rightarrow> nat \<Rightarrow> long \<Rightarrow> error + v_t" where
  "div_loop strides_h5 0 L = Inr strides_h5"
| "div_loop strides_h5 (Suc v) L =
     (if L = 0 then Inl Division_by_zero
      else div_loop (strides_h5[v := strides_h5 ! v div L]) v L)"

text \<open>
  \<open>for (int u = rank - 2; u >= 0; --u) { ... }\<close>: \<open>outer_loop (u + 1) (Ltot, strides_h5)\<close>
  is the loop entered with index \<open>u\<close>.
\<close>

fun outer_loop :: "nat \<Rightarrow> v_t \<times> v_t \<Rightarrow> error + v_t \<times> v_t" where
  "outer_loop 0 (Ltot, strides_h5) = Inr (Ltot, strides_h5)"
| "outer_loop (Suc u) (Ltot, strides_h5) =
     (let L = gcd_loop strides_h5 u (strides_h5 ! u) in
      case div_loop strides_h5 (Suc u) L of
        Inl e \<Rightarrow> Inl e
      | Inr strides_h5' \<Rightarrow> outer_loop u (Ltot[Suc u := L], strides_h5'))"

text \<open>
  The function itself.  The pointer \<open>stri\<close> is the list of the values it points to; reading
  \<open>stri[u]\<close> past its end is \<open>Out_of_bounds\<close>, and a negative \<open>rank\<close> makes the vector
  constructors throw.  Memory exhaustion is not modelled.
\<close>

definition get_L_tot_and_strides_h5 :: "long list \<Rightarrow> int \<Rightarrow> long \<Rightarrow> error + v_t \<times> v_t" where
  "get_L_tot_and_strides_h5 stri rank total_size =
     (if rank = 0 then Inr ([], [])
      else if rank < 0 then Inl Length_error
      else if total_size = 0 then Inr (replicate (nat rank) 0, replicate (nat rank) 1)
      else if length stri < nat rank then Inl Out_of_bounds
      else
        let Ltot = replicate (nat rank) 0;
            strides_h5 = map (\<lambda>u. stri ! u) [0..<nat rank];
            Ltot = Ltot[0 := total_size]
        in outer_loop (nat rank - 1) (Ltot, strides_h5))"

subsection \<open>The reference definition of the specification\<close>

text \<open>
  The reference is written from the words of the specification: for each dimension \<open>u\<close>
  from \<open>rank - 2\<close> down to \<open>0\<close>, \<open>L\<close> is the greatest common divisor of
  \<open>strides_h5[u], ..., strides_h5[0]\<close>, every \<open>strides_h5[v]\<close> with \<open>v \<le> u\<close> is divided by
  \<open>L\<close>, and \<open>L_tot[u + 1] = L\<close>.  Dividing by \<open>L = 0\<close> is undefined, so the reference is
  partial: it has no value there.  It is written for any numbers with greatest common
  divisors, and used for the natural numbers (the strides read as unsigned) and for the
  integers (the strides read as signed).
\<close>

definition ref_step :: "nat \<Rightarrow> 'a list \<times> 'a list \<Rightarrow> ('a :: semiring_Gcd list \<times> 'a list) option" where
  "ref_step u p =
     (case p of (Ltot, strides_h5) \<Rightarrow>
        let L = Gcd (set (take (Suc u) strides_h5)) in
        if L = 0 then None
        else Some (Ltot[Suc u := L],
                   map (\<lambda>x. x div L) (take (Suc u) strides_h5) @ drop (Suc u) strides_h5))"

fun ref_loop :: "nat \<Rightarrow> 'a list \<times> 'a list \<Rightarrow> ('a :: semiring_Gcd list \<times> 'a list) option" where
  "ref_loop 0 p = Some p"
| "ref_loop (Suc u) p = (case ref_step u p of None \<Rightarrow> None | Some p' \<Rightarrow> ref_loop u p')"

definition ref_L_tot_and_strides_h5 ::
  "'a list \<Rightarrow> nat \<Rightarrow> 'a \<Rightarrow> ('a :: semiring_Gcd list \<times> 'a list) option" where
  "ref_L_tot_and_strides_h5 stri r total_size =
     (if r = 0 then Some ([], [])
      else if total_size = 0 then Some (replicate r 0, replicate r 1)
      else ref_loop (r - 1) ((replicate r 0)[0 := total_size], stri))"

text \<open>
  The result of the code read as unsigned numbers, and read as signed numbers; a failure has
  no value.
\<close>

definition abs_result :: "error + v_t \<times> v_t \<Rightarrow> (nat list \<times> nat list) option" where
  "abs_result r = (case r of Inl e \<Rightarrow> None | Inr (Ltot, s) \<Rightarrow> Some (map unat Ltot, map unat s))"

definition abs_result_signed :: "error + v_t \<times> v_t \<Rightarrow> (int list \<times> int list) option" where
  "abs_result_signed r =
     (case r of Inl e \<Rightarrow> None | Inr (Ltot, s) \<Rightarrow> Some (map sint Ltot, map sint s))"

subsection \<open>Addressing\<close>

text \<open>
  Addressing with the original strides: the element with index vector \<open>idx\<close> lies at the
  linear offset \<open>\<Sum>d. idx[d] * stri[d]\<close> (the strides are signed).

  Addressing with the decomposition: a dataspace with extents \<open>L_tot\<close> is laid out in row-major
  order, so the point with coordinates \<open>c\<close> lies at the linear offset
  \<open>\<Sum>d. c[d] * (L_tot[d+1] * ... * L_tot[rank-1])\<close>; a hyperslab with offset \<open>off\<close> and stride
  \<open>strides_h5\<close> selects the coordinates \<open>off[d] + idx[d] * strides_h5[d]\<close>.  Offsets are
  unbounded integers; the index vectors are those below a vector \<open>cnt\<close> of counts.
\<close>

definition index_vectors :: "nat list \<Rightarrow> nat list list" where
  "index_vectors cnt = product_lists (map (\<lambda>c. [0..<c]) cnt)"

definition stri_offset :: "long list \<Rightarrow> nat list \<Rightarrow> int" where
  "stri_offset stri idx = (\<Sum>d\<leftarrow>[0..<length stri]. int (idx ! d) * sint (stri ! d))"

definition h5_coord :: "v_t \<Rightarrow> v_t \<Rightarrow> nat list \<Rightarrow> nat \<Rightarrow> int" where
  "h5_coord off strides_h5 idx d = uint (off ! d) + int (idx ! d) * uint (strides_h5 ! d)"

definition linear_offset :: "v_t \<Rightarrow> (nat \<Rightarrow> int) \<Rightarrow> int" where
  "linear_offset Ltot coord =
     (\<Sum>d\<leftarrow>[0..<length Ltot]. coord d * prod_list (map uint (drop (Suc d) Ltot)))"

definition visited_h5 :: "v_t \<Rightarrow> v_t \<Rightarrow> v_t \<Rightarrow> nat list \<Rightarrow> int set" where
  "visited_h5 Ltot strides_h5 off cnt =
     set (map (\<lambda>idx. linear_offset Ltot (h5_coord off strides_h5 idx)) (index_vectors cnt))"

definition visited_stri :: "int \<Rightarrow> long list \<Rightarrow> nat list \<Rightarrow> int set" where
  "visited_stri base stri cnt =
     set (map (\<lambda>idx. base + stri_offset stri idx) (index_vectors cnt))"

text \<open>
  The round trip: the function returns a pair, \<open>L_tot[0]\<close> is \<open>total_size\<close>, and the offsets
  visited through the pair, for a hyperslab offset \<open>off\<close> and counts \<open>cnt\<close>, are the offsets
  visited with the original strides from the position of \<open>off\<close>.
\<close>

definition decomposition_roundtrip :: "long list \<Rightarrow> int \<Rightarrow> long \<Rightarrow> v_t \<Rightarrow> nat list \<Rightarrow> bool" where
  "decomposition_roundtrip stri rank total_size off cnt =
     (case get_L_tot_and_strides_h5 stri rank total_size of
        Inl e \<Rightarrow> False
      | Inr (Ltot, strides_h5) \<Rightarrow>
          Ltot ! 0 = total_size \<and>
          visited_h5 Ltot strides_h5 off cnt =
            visited_stri (linear_offset Ltot (\<lambda>d. uint (off ! d))) stri cnt)"

text \<open>A set of offsets as 64-bit addresses see it: modulo \<open>2^64\<close>.\<close>

definition wrap64 :: "int set \<Rightarrow> int set" where
  "wrap64 S = (\<lambda>x. x mod 2 ^ 64) ` S"

section \<open>The array view and the storage library\<close>

subsection \<open>The view descriptors\<close>

text \<open>
  Handles (\<open>hid_t\<close>) and status codes (\<open>herr_t\<close>, \<open>htri_t\<close>, \<open>hssize_t\<close>, \<open>int\<close>) of the
  library are integers; the data pointer \<open>start\<close> of a view is an address.
\<close>

type_synonym hid_t = int
type_synonym addr = nat

text \<open>
  Modelled from the spec: the header \<open>array_interface.hpp\<close>, which declares \<open>hyperslab\<close>,
  \<open>h5_array_view\<close>, \<open>h5_lengths_type\<close> and their \<open>rank()\<close> members, is not among the
  sources.  The specification gives a view an element-type tag, a hyperslab (offset, stride,
  count and optional block vectors, all of length rank; an empty block vector stands for unit
  blocks), a total-extents vector \<open>L_tot\<close>, a pointer to the first element and an
  \<open>is_complex\<close> flag, and gives the metadata read back from storage a dimension-extents
  vector, a storage element-type handle and a has-complex-attribute flag.  The fields keep the
  names the code uses for them (\<open>lt.ty\<close> is \<open>ty_lt\<close> here).  The rank of a hyperslab is
  the common length of its vectors, taken from \<open>count\<close>; the rank of a view is that of its
  hyperslab; the rank of the stored metadata is the length of \<open>lengths\<close>.
\<close>

record hyperslab =
  offset :: v_t
  stride :: v_t
  count :: v_t
  block :: v_t

record h5_array_view =
  ty :: hid_t
  start :: addr
  L_tot :: v_t
  slab :: hyperslab
  is_complex :: bool

record h5_lengths_type =
  lengths :: v_t
  ty_lt :: hid_t
  has_complex_attribute :: bool

definition slab_rank :: "hyperslab \<Rightarrow> int" where
  "slab_rank s = int (length (count s))"

definition view_rank :: "h5_array_view \<Rightarrow> int" where
  "view_rank v = slab_rank (slab v)"

definition lt_rank :: "h5_lengths_type \<Rightarrow> int" where
  "lt_rank lt = int (length (lengths lt))"

subsection \<open>The storage library as an environment\<close>

text \<open>
  The HDF5 library is not part of the program: the code is modelled against every library.
  Each call that creates a handle, changes a dataspace, a property list or the file, moves data
  or prints is an \<open>event\<close>; a run of the code extends the list of events that happened so
  far.  A vector passed by pointer (\<open>v.L_tot.data()\<close>) is passed as the vector; a null
  pointer in place of the block vector is \<open>None\<close>.  The arguments that the code fixes are part
  of the constructor names or are written as the constants \<open>H5P_DEFAULT\<close> and \<open>H5S_ALL\<close>.
\<close>

datatype event =
    H5Screate_SCALAR
  | H5Screate_simple int v_t
  | H5Sselect_hyperslab_SET hid_t v_t v_t v_t "v_t option"
  | Group_unlink hid_t string
  | Group_open_dataset hid_t string
  | H5Pcreate_DATASET_CREATE
  | H5Pset_chunk hid_t int v_t
  | H5Pset_deflate hid_t nat
  | H5Dcreate2 hid_t string hid_t hid_t hid_t hid_t hid_t
  | H5Dget_space hid_t
  | H5Dwrite hid_t hid_t hid_t hid_t hid_t addr
  | H5Dread hid_t hid_t hid_t hid_t hid_t addr
  | H5_write_attribute hid_t string string
  | H5Acreate2 hid_t string hid_t hid_t hid_t hid_t
  | H5Aopen hid_t string hid_t
  | H5Aget_space hid_t
  | H5Aget_type hid_t
  | H5Awrite hid_t hid_t addr
  | H5Aread hid_t hid_t addr
  | Cerr string

text \<open>
  Introspection only reads the state of the library: it is an observation of the state that
  the events so far have produced, and adds no event.
\<close>

datatype h5_query =
    H5Sget_simple_extent_npoints hid_t
  | H5Sget_simple_extent_ndims hid_t
  | H5Tget_class hid_t
  | H5Tequal hid_t hid_t
  | H5LTfind_attribute hid_t string
  | Hdf5_type_equal hid_t hid_t

text \<open>
  A library answers every call and every observation, depending on the events so far:
  \<open>ret\<close> is the value a call returns; \<open>thrown\<close> is the exception with which one of the
  wrapper calls of the repository (\<open>group::unlink\<close>, \<open>group::open_dataset\<close>,
  \<open>h5_write_attribute\<close>) ends instead of returning; \<open>obs\<close> is the answer to an
  observation (for \<open>hdf5_type_equal\<close>, not zero means equal); \<open>is_valid\<close> is the validity
  of a handle; \<open>get_name_of_h5_type\<close> and \<open>group_name\<close> give the names that the error
  messages quote.  The reference counting of the handle wrappers (copies of a handle and
  the release at the end of a function) is not modelled.
\<close>

record h5lib =
  ret :: "event list \<Rightarrow> event \<Rightarrow> int"
  thrown :: "event list \<Rightarrow> event \<Rightarrow> string option"
  obs :: "event list \<Rightarrow> h5_query \<Rightarrow> int"
  is_valid :: "event list \<Rightarrow> hid_t \<Rightarrow> bool"
  get_name_of_h5_type :: "event list \<Rightarrow> hid_t \<Rightarrow> string"
  group_name :: "event list \<Rightarrow> hid_t \<Rightarrow> string"

definition H5P_DEFAULT :: hid_t where
  "H5P_DEFAULT = 0"

definition H5S_ALL :: hid_t where
  "H5S_ALL = 0"

definition call :: "h5lib \<Rightarrow> event list \<Rightarrow> event \<Rightarrow> int \<times> event list" where
  "call lib tr c = (ret lib tr c, tr @ [c])"

definition call_throwing :: "h5lib \<Rightarrow> event list \<Rightarrow> event \<Rightarrow> (error + int) \<times> event list" where
  "call_throwing lib tr c =
     (case thrown lib tr c of
        Some msg \<Rightarrow> (Inl (Propagated msg), tr @ [c])
      | None \<Rightarrow> (Inr (ret lib tr c), tr @ [c]))"

text \<open>\<open>std::to_string\<close> of an \<open>int\<close>: the decimal digits, with a sign.\<close>

fun string_of_nat :: "nat \<Rightarrow> string" where
  "string_of_nat n =
     (if n < 10 then [''0123456789'' ! n]
      else string_of_nat (n div 10) @ [''0123456789'' ! (n mod 10)])"

definition to_string :: "int \<Rightarrow> string" where
  "to_string i = (if i < 0 then CHR ''-'' # string_of_nat (nat (- i)) else string_of_nat (nat i))"

subsection \<open>\<open>make_mem_dspace\<close>\<close>

definition make_mem_dspace ::
  "h5lib \<Rightarrow> h5_array_view \<Rightarrow> event list \<Rightarrow> (error + hid_t) \<times> event list" where
  "make_mem_dspace lib v tr =
     (if view_rank v = 0 then
        (case call lib tr H5Screate_SCALAR of (h, tr1) \<Rightarrow> (Inr h, tr1))
      else
        (case call lib tr (H5Screate_simple (slab_rank (slab v)) (L_tot v)) of
           (ds, tr1) \<Rightarrow>
             if \<not> is_valid lib tr1 ds then (Inl (Runtime_error ''Cannot create the dataset''), tr1)
             else
               (case call lib tr1
                       (H5Sselect_hyperslab_SET ds (offset (slab v)) (stride (slab v))
                          (count (slab v))
                          (if block (slab v) = [] then None else Some (block (slab v)))) of
                  (err, tr2) \<Rightarrow>
                    if err < 0 then (Inl (Runtime_error ''Cannot set hyperslab''), tr2)
                    else (Inr ds, tr2))))"

subsection \<open>\<open>write\<close>\<close>

text \<open>
  \<open>write\<close> is a keyword of the theory language; the function is \<open>write_dataset\<close> here.
  It is given in the parts in which the code proceeds.
\<close>

text \<open>
  The property list of the dataset (\<open>cparms\<close>): the default, or with \<open>compress\<close> and a rank
  other than 0 a new list with chunks of \<open>max(count[i], 1)\<close> and deflate level 1.
\<close>

definition dataset_creation_properties ::
  "h5lib \<Rightarrow> h5_array_view \<Rightarrow> bool \<Rightarrow> event list \<Rightarrow> hid_t \<times> event list" where
  "dataset_creation_properties lib v compress tr =
     (if compress \<and> view_rank v \<noteq> 0 then
        let n_dims = view_rank v;
            chunk_dims = map (\<lambda>i. max (count (slab v) ! i) 1) [0..<nat (view_rank v)]
        in case call lib tr H5Pcreate_DATASET_CREATE of
             (cparms, tr1) \<Rightarrow>
               (case call lib tr1 (H5Pset_chunk cparms n_dims chunk_dims) of
                  (e1, tr2) \<Rightarrow>
                    (case call lib tr2 (H5Pset_deflate cparms 1) of
                       (e2, tr3) \<Rightarrow> (cparms, tr3)))
      else (H5P_DEFAULT, tr))"

text \<open>
  The data transfer of \<open>write\<close>, skipped when the memory dataspace has no point, and the
  marker attribute that follows it.
\<close>

definition write_transfer ::
  "h5lib \<Rightarrow> hid_t \<Rightarrow> string \<Rightarrow> hid_t \<Rightarrow> h5_array_view \<Rightarrow> hid_t \<Rightarrow> event list \<Rightarrow>
   (error + unit) \<times> event list" where
  "write_transfer lib g name ds v mem_dspace tr =
     (if 0 < obs lib tr (H5Sget_simple_extent_npoints mem_dspace) then
        (case call lib tr (H5Dwrite ds (ty v) mem_dspace H5S_ALL H5P_DEFAULT (start v)) of
           (err, tr1) \<Rightarrow>
             if err < 0 then
               (Inl (Runtime_error (''Error writing the scalar dataset '' @ name @
                  '' in the group'' @ group_name lib tr1 g)), tr1)
             else (Inr (), tr1))
      else (Inr (), tr))"

definition write_complex_marker ::
  "h5lib \<Rightarrow> hid_t \<Rightarrow> h5_array_view \<Rightarrow> event list \<Rightarrow> (error + unit) \<times> event list" where
  "write_complex_marker lib ds v tr =
     (if is_complex v then
        (case call_throwing lib tr (H5_write_attribute ds ''__complex__'' ''1'') of
           (Inl e, tr1) \<Rightarrow> (Inl e, tr1)
         | (Inr r, tr1) \<Rightarrow> (Inr (), tr1))
      else (Inr (), tr))"

text \<open>
  The first part of \<open>write\<close>: unlink the name, build the property list and the file
  dataspace (extents \<open>count\<close>), create the dataset and check its handle.
\<close>

definition create_dataset ::
  "h5lib \<Rightarrow> hid_t \<Rightarrow> string \<Rightarrow> h5_array_view \<Rightarrow> bool \<Rightarrow> event list \<Rightarrow>
   (error + hid_t) \<times> event list" where
  "create_dataset lib g name v compress tr =
     (case call_throwing lib tr (Group_unlink g name) of
        (Inl e, tr1) \<Rightarrow> (Inl e, tr1)
      | (Inr r, tr1) \<Rightarrow>
          (case dataset_creation_properties lib v compress tr1 of
             (cparms, tr2) \<Rightarrow>
               (case call lib tr2 (H5Screate_simple (slab_rank (slab v)) (count (slab v))) of
                  (file_dspace, tr3) \<Rightarrow>
                    (case call lib tr3
                            (H5Dcreate2 g name (ty v) file_dspace H5P_DEFAULT cparms H5P_DEFAULT) of
                       (ds, tr4) \<Rightarrow>
                         if \<not> is_valid lib tr4 ds then
                           (Inl (Runtime_error (''Cannot create the dataset '' @ name @
                              '' in the group '' @ group_name lib tr4 g)), tr4)
                         else (Inr ds, tr4)))))"

definition write_dataset ::
  "h5lib \<Rightarrow> hid_t \<Rightarrow> string \<Rightarrow> h5_array_view \<Rightarrow> bool \<Rightarrow> event list \<Rightarrow>
   (error + unit) \<times> event list" where
  "write_dataset lib g name v compress tr =
     (case create_dataset lib g name v compress tr of
        (Inl e, tr4) \<Rightarrow> (Inl e, tr4)
      | (Inr ds, tr4) \<Rightarrow>
          (case make_mem_dspace lib v tr4 of
             (Inl e, tr5) \<Rightarrow> (Inl e, tr5)
           | (Inr mem_dspace, tr5) \<Rightarrow>
               (case write_transfer lib g name ds v mem_dspace tr5 of
                  (Inl e, tr6) \<Rightarrow> (Inl e, tr6)
                | (Inr u, tr6) \<Rightarrow> write_complex_marker lib ds v tr6)))"

subsection \<open>\<open>write_attribute\<close>\<close>

definition write_attribute ::
  "h5lib \<Rightarrow> hid_t \<Rightarrow> string \<Rightarrow> h5_array_view \<Rightarrow> event list \<Rightarrow> (error + unit) \<times> event list" where
  "write_attribute lib obj name v tr =
     (if obs lib tr (H5LTfind_attribute obj name) \<noteq> 0 then
        (Inl (Runtime_error (''The attribute '' @ name @
           '' is already present. Can not overwrite'')), tr)
      else
        (case make_mem_dspace lib v tr of
           (Inl e, tr1) \<Rightarrow> (Inl e, tr1)
         | (Inr mem_dspace, tr1) \<Rightarrow>
             (case call lib tr1 (H5Acreate2 obj name (ty v) mem_dspace H5P_DEFAULT H5P_DEFAULT) of
                (attr, tr2) \<Rightarrow>
                  if \<not> is_valid lib tr2 attr then
                    (Inl (Runtime_error (''Cannot create the attribute '' @ name)), tr2)
                  else
                    (case call lib tr2 (H5Awrite attr (ty v) (start v)) of
                       (err, tr3) \<Rightarrow>
                         if err < 0 then
                           (Inl (Runtime_error (''Cannot write the attribute '' @ name)), tr3)
                         else (Inr (), tr3)))))"

subsection \<open>\<open>read\<close>\<close>

text \<open>The messages of \<open>read\<close>; the warning is printed on \<open>std::cerr\<close>, not thrown.\<close>

definition incompatible_types_message :: "h5lib \<Rightarrow> event list \<Rightarrow> hid_t \<Rightarrow> hid_t \<Rightarrow> string" where
  "incompatible_types_message lib tr t1 t2 =
     ''Incompatible types in h5_read. Expecting a '' @ get_name_of_h5_type lib tr t1 @
     '' while the array stored in the hdf5 file has type '' @ get_name_of_h5_type lib tr t2"

definition mismatching_types_warning :: "h5lib \<Rightarrow> event list \<Rightarrow> hid_t \<Rightarrow> hid_t \<Rightarrow> string" where
  "mismatching_types_warning lib tr t1 t2 =
     ''WARNING: Mismatching types in h5_read. Expecting a '' @ get_name_of_h5_type lib tr t1 @
     '' while the array stored in the hdf5 file has type '' @ get_name_of_h5_type lib tr t2 @
     [CHR 0x0A]"

definition rank_mismatch_message :: "h5_array_view \<Rightarrow> h5_lengths_type \<Rightarrow> string" where
  "rank_mismatch_message v lt =
     ''h5 read. Rank mismatch : expecting in file a rank '' @ to_string (view_rank v) @
     '' while the array stored in the hdf5 file has rank '' @ to_string (lt_rank lt)"

definition read_transfer ::
  "h5lib \<Rightarrow> hid_t \<Rightarrow> string \<Rightarrow> hid_t \<Rightarrow> hid_t \<Rightarrow> h5_array_view \<Rightarrow> hid_t \<Rightarrow> event list \<Rightarrow>
   (error + unit) \<times> event list" where
  "read_transfer lib g name ds file_dspace v mem_dspace tr =
     (if 0 < obs lib tr (H5Sget_simple_extent_npoints file_dspace) then
        (case call lib tr (H5Dread ds (ty v) mem_dspace file_dspace H5P_DEFAULT (start v)) of
           (err, tr1) \<Rightarrow>
             if err < 0 then
               (Inl (Runtime_error (''Error reading the scalar dataset '' @ name @
                  '' in the group '' @ group_name lib tr1 g)), tr1)
             else (Inr (), tr1))
      else (Inr (), tr))"

text \<open>
  The first part of \<open>read\<close>: open the dataset, take its dataspace, and check the type
  class, the exact type (a warning), the rank and the lengths.
\<close>

definition read_checks ::
  "h5lib \<Rightarrow> hid_t \<Rightarrow> string \<Rightarrow> h5_array_view \<Rightarrow> h5_lengths_type \<Rightarrow> event list \<Rightarrow>
   (error + hid_t \<times> hid_t) \<times> event list" where
  "read_checks lib g name v lt tr =
     (case call_throwing lib tr (Group_open_dataset g name) of
        (Inl e, tr1) \<Rightarrow> (Inl e, tr1)
      | (Inr ds, tr1) \<Rightarrow>
          (case call lib tr1 (H5Dget_space ds) of
             (file_dspace, tr2) \<Rightarrow>
               if obs lib tr2 (H5Tget_class (ty v)) \<noteq> obs lib tr2 (H5Tget_class (ty_lt lt)) then
                 (Inl (Runtime_error (incompatible_types_message lib tr2 (ty v) (ty_lt lt))), tr2)
               else
                 let tr3 = (if obs lib tr2 (Hdf5_type_equal (ty v) (ty_lt lt)) = 0
                            then tr2 @ [Cerr (mismatching_types_warning lib tr2 (ty v) (ty_lt lt))]
                            else tr2)
                 in if lt_rank lt \<noteq> view_rank v then
                      (Inl (Runtime_error (rank_mismatch_message v lt)), tr3)
                    else if lengths lt \<noteq> count (slab v) then
                      (Inl (Runtime_error ''h5 read. Lengths mismatch''), tr3)
                    else (Inr (ds, file_dspace), tr3)))"

definition read ::
  "h5lib \<Rightarrow> hid_t \<Rightarrow> string \<Rightarrow> h5_array_view \<Rightarrow> h5_lengths_type \<Rightarrow> event list \<Rightarrow>
   (error + unit) \<times> event list" where
  "read lib g name v lt tr =
     (case read_checks lib g name v lt tr of
        (Inl e, tr3) \<Rightarrow> (Inl e, tr3)
      | (Inr (ds, file_dspace), tr3) \<Rightarrow>
          (case make_mem_dspace lib v tr3 of
             (Inl e, tr4) \<Rightarrow> (Inl e, tr4)
           | (Inr mem_dspace, tr4) \<Rightarrow>
               read_transfer lib g name ds file_dspace v mem_dspace tr4))"

subsection \<open>\<open>read_attribute\<close>\<close>

definition read_attribute ::
  "h5lib \<Rightarrow> hid_t \<Rightarrow> string \<Rightarrow> h5_array_view \<Rightarrow> event list \<Rightarrow> (error + unit) \<times> event list" where
  "read_attribute lib obj name v tr =
     (case call lib tr (H5Aopen obj name H5P_DEFAULT) of
        (attr, tr1) \<Rightarrow>
          if \<not> is_valid lib tr1 attr then
            (Inl (Runtime_error (''Cannot open the attribute '' @ name)), tr1)
          else
            (case call lib tr1 (H5Aget_space attr) of
               (space, tr2) \<Rightarrow>
                 if obs lib tr2 (H5Sget_simple_extent_ndims space) \<noteq> 0 then
                   (Inl (Runtime_error ''Reading a scalar attribute and got rank !=0''), tr2)
                 else
                   (case call lib tr2 (H5Aget_type attr) of
                      (stored_ty, tr3) \<Rightarrow>
                        let eq = obs lib tr3 (H5Tequal stored_ty (ty v)) in
                        if eq < 0 then
                          (Inl (Runtime_error ''Type comparison failure in reading attribute''), tr3)
                        else if eq = 0 then
                          (Inl (Runtime_error ''Type mismatch in reading attribute''), tr3)
                        else
                          (case call lib tr3 (H5Aread attr (ty v) (start v)) of
                             (err, tr4) \<Rightarrow>
                               if err < 0 then
                                 (Inl (Runtime_error (''Cannot read the attribute '' @ name)), tr4)
                               else (Inr (), tr4)))))"

subsection \<open>The events that move data or write an attribute\<close>

fun is_transfer :: "event \<Rightarrow> bool" where
  "is_transfer (H5Dwrite ds t m f p b) = True"
| "is_transfer (H5Dread ds t m f p b) = True"
| "is_transfer (H5Awrite a t b) = True"
| "is_transfer (H5Aread a t b) = True"
| "is_transfer e = False"

fun is_attribute_creation :: "event \<Rightarrow> bool" where
  "is_attribute_creation (H5_write_attribute obj n x) = True"
| "is_attribute_creation (H5Acreate2 obj n t s p q) = True"
| "is_attribute_creation e = False"

definition transfers :: "event list \<Rightarrow> event list" where
  "transfers tr = filter is_transfer tr"

definition attribute_creations :: "event list \<Rightarrow> event list" where
  "attribute_creations tr = filter is_attribute_creation tr"

subsection \<open>What the dataspace events denote\<close>

text \<open>
  Modelled from the spec: the dataspaces themselves live in the library.  The specification
  describes a dataspace as the shape of an array with a selected subset of its elements, a
  scalar dataspace as one with exactly one addressable point, and a hyperslab as a selection
  given by offset, stride, count and block vectors, where an absent block vector means unit
  blocks.  The events of a run are read accordingly: a successful creation binds the returned
  handle to a scalar dataspace or to a simple dataspace with the given extents and everything
  selected, and a successful \<open>H5S_SELECT_SET\<close> replaces the selection of a simple dataspace.
  A handle returned by \<open>H5Dget_space\<close> or \<open>H5Aget_space\<close> denotes a dataspace stored in
  the file, which the events do not describe.
\<close>

datatype selection = Select_all | Select_hyperslab v_t v_t v_t "v_t option"

datatype dataspace = Scalar_space | Simple_space v_t selection

fun extent_npoints :: "dataspace \<Rightarrow> nat" where
  "extent_npoints Scalar_space = 1"
| "extent_npoints (Simple_space dims sel) = prod_list (map unat dims)"

definition apply_event ::
  "h5lib \<Rightarrow> event list \<Rightarrow> event \<Rightarrow> (hid_t \<rightharpoonup> dataspace) \<Rightarrow> (hid_t \<rightharpoonup> dataspace)" where
  "apply_event lib past e spaces =
     (case e of
        H5Screate_SCALAR \<Rightarrow>
          if is_valid lib (past @ [e]) (ret lib past e)
          then spaces(ret lib past e \<mapsto> Scalar_space) else spaces
      | H5Screate_simple r dims \<Rightarrow>
          if is_valid lib (past @ [e]) (ret lib past e)
          then spaces(ret lib past e \<mapsto> Simple_space dims Select_all) else spaces
      | H5Sselect_hyperslab_SET ds off str cnt blk \<Rightarrow>
          (case spaces ds of
             Some (Simple_space dims sel) \<Rightarrow>
               if 0 \<le> ret lib past e
               then spaces(ds \<mapsto> Simple_space dims (Select_hyperslab off str cnt blk))
               else spaces
           | _ \<Rightarrow> spaces)
      | H5Dget_space d \<Rightarrow> spaces(ret lib past e := None)
      | H5Aget_space a \<Rightarrow> spaces(ret lib past e := None)
      | _ \<Rightarrow> spaces)"

fun dataspaces_rev :: "h5lib \<Rightarrow> event list \<Rightarrow> (hid_t \<rightharpoonup> dataspace)" where
  "dataspaces_rev lib [] = Map.empty"
| "dataspaces_rev lib (e # past) = apply_event lib (rev past) e (dataspaces_rev lib past)"

definition dataspaces :: "h5lib \<Rightarrow> event list \<Rightarrow> (hid_t \<rightharpoonup> dataspace)" where
  "dataspaces lib tr = dataspaces_rev lib (rev tr)"


subsection \<open>A concrete library and concrete descriptors\<close>

text \<open>
  A library in which every call succeeds: a new handle is the number of events so far plus
  one, every dataspace has six points, stored attributes are scalar, the class of a type is
  its number divided by ten, and only the attribute \<open>units\<close> exists.  It serves to run the
  functions on the descriptors below.
\<close>

definition example_lib :: h5lib where
  "example_lib =
     \<lparr>ret = (\<lambda>tr c. int (length tr) + 1),
      thrown = (\<lambda>tr c. None),
      obs = (\<lambda>tr q. case q of
                H5Sget_simple_extent_npoints h \<Rightarrow> 6
              | H5Sget_simple_extent_ndims h \<Rightarrow> 0
              | H5Tget_class t \<Rightarrow> t div 10
              | H5Tequal a b \<Rightarrow> 1
              | H5LTfind_attribute obj n \<Rightarrow> (if n = ''units'' then 1 else 0)
              | Hdf5_type_equal a b \<Rightarrow> (if a = b then 1 else 0)),
      is_valid = (\<lambda>tr h. 0 < h),
      get_name_of_h5_type = (\<lambda>tr t. if t = 10 then ''int'' else if t = 11 then ''long'' else ''double''),
      group_name = (\<lambda>tr g. ''/'')\<rparr>"

definition example_view :: h5_array_view where
  "example_view =
     \<lparr>ty = 10, start = 4096, L_tot = [2, 3],
      slab = \<lparr>offset = [0, 0], stride = [1, 1], count = [2, 3], block = []\<rparr>,
      is_complex = True\<rparr>"

definition example_lengths :: h5_lengths_type where
  "example_lengths = \<lparr>lengths = [2, 3], ty_lt = 11, has_complex_attribute = False\<rparr>"

section \<open>Properties of the stride decomposition\<close>

subsection \<open>Signed and unsigned readings of a 64-bit word\<close>

lemma uint_eq_sint_nonneg: "0 \<le> sint x \<Longrightarrow> uint x = sint x" for x :: "64 word"
  using sint_less [of x] by (simp add: uint_sint take_bit_int_eq_self)

lemma uint_eq_sint_neg: "sint x < 0 \<Longrightarrow> uint x = sint x + 2 ^ 64" for x :: "64 word"
proof -
  assume neg: "sint x < 0"
  have lo: "- (2 ^ 63) \<le> sint x" using sint_greater_eq [of x] by simp
  have "uint x = (sint x + 2 ^ 64) mod 2 ^ 64"
    by (simp add: uint_sint take_bit_eq_mod)
  also have "\<dots> = sint x + 2 ^ 64"
    using neg lo by (intro mod_pos_pos_trivial) simp_all
  finally show ?thesis .
qed

lemma sint_nonneg_iff: "0 \<le> sint x \<longleftrightarrow> unat x < 2 ^ 63" for x :: "64 word"
proof
  assume "0 \<le> sint x"
  then have "uint x < 2 ^ 63" using sint_less [of x] by (simp add: uint_eq_sint_nonneg)
  then show "unat x < 2 ^ 63" by (simp add: unat_eq_nat_uint nat_less_iff del: nat_uint_eq)
next
  assume a: "unat x < 2 ^ 63"
  show "0 \<le> sint x"
  proof (rule ccontr)
    assume "\<not> 0 \<le> sint x"
    then have neg: "sint x < 0" by simp
    have lo: "- (2 ^ 63) \<le> sint x" using sint_greater_eq [of x] by simp
    have "uint x \<ge> 2 ^ 63" using uint_eq_sint_neg [OF neg] lo by simp
    then have "unat x \<ge> 2 ^ 63" by (simp add: unat_eq_nat_uint le_nat_iff del: nat_uint_eq)
    with a show False by simp
  qed
qed

lemma gcd_lt_2p64: "a < 2 ^ 64 \<Longrightarrow> b < 2 ^ 64 \<Longrightarrow> gcd a b < (2::nat) ^ 64"
proof (cases "a = 0")
  case True
  assume "b < 2 ^ 64" with True show ?thesis by simp
next
  case False
  assume "a < 2 ^ 64"
  with gcd_le1_nat [OF False, of b] show ?thesis by simp
qed

lemma unat_lt_2p64: "unat (x :: 64 word) < 2 ^ 64"
  using unsigned_less [of x, where ?'a = nat] by simp

lemma unat_of_nat_gcd: "unat (word_of_nat (gcd (unat a) (unat b)) :: 64 word) = gcd (unat a) (unat b)"
  for a b :: "64 word"
proof -
  have "gcd (unat a) (unat b) < 2 ^ 64"
    by (rule gcd_lt_2p64) (rule unat_lt_2p64)+
  then show ?thesis by (simp add: unat_of_nat)
qed

lemma unat_std_gcd: "unat (std_gcd m n) = gcd (unat (if sint m < 0 then - m else m)) (unat n)"
  unfolding std_gcd_def by (rule unat_of_nat_gcd)

lemma unat_std_gcd_nonneg: "0 \<le> sint m \<Longrightarrow> unat (std_gcd m n) = gcd (unat m) (unat n)"
  by (simp add: unat_std_gcd)

subsection \<open>The loops in closed form\<close>

lemma div_loop_zero: "div_loop s (Suc n) 0 = Inl Division_by_zero"
  by simp

lemma div_loop_eq:
  "L \<noteq> 0 \<Longrightarrow> n \<le> length s \<Longrightarrow>
   div_loop s n L = Inr (map (\<lambda>x. x div L) (take n s) @ drop n s)"
proof (induction n arbitrary: s)
  case 0 then show ?case by simp
next
  case (Suc n)
  then have n: "n < length s" by simp
  have "div_loop s (Suc n) L = div_loop (s[n := s ! n div L]) n L"
    using Suc.prems by simp
  also have "\<dots> = Inr (map (\<lambda>x. x div L) (take n (s[n := s ! n div L])) @ drop n (s[n := s ! n div L]))"
    using Suc.prems by (intro Suc.IH) simp_all
  also have "take n (s[n := s ! n div L]) = take n s" by simp
  also have "drop n (s[n := s ! n div L]) = (s ! n div L) # drop (Suc n) s"
    using n by (simp add: drop_update_swap flip: Cons_nth_drop_Suc)
  finally show ?case using n by (simp add: take_Suc_conv_app_nth)
qed

lemma gcd_loop_unat:
  "\<forall>x\<in>set s. unat x < 2 ^ 63 \<Longrightarrow> unat L < 2 ^ 63 \<Longrightarrow> n \<le> length s \<Longrightarrow>
   unat (gcd_loop s n L) = gcd (unat L) (Gcd (set (take n (map unat s))))"
proof (induction n arbitrary: L)
  case 0 then show ?case by simp
next
  case (Suc n)
  then have n: "n < length s" by simp
  let ?L = "std_gcd L (s ! n)"
  have sn: "unat (s ! n) < 2 ^ 63" using Suc.prems(1) n by simp
  have L': "unat ?L = gcd (unat L) (unat (s ! n))"
    using Suc.prems(2) by (simp add: unat_std_gcd_nonneg sint_nonneg_iff)
  have "unat ?L < 2 ^ 63"
  proof (cases "unat L = 0")
    case True then show ?thesis using sn L' by simp
  next
    case False
    then have "gcd (unat L) (unat (s ! n)) \<le> unat L" by (rule gcd_le1_nat)
    also have "\<dots> < 2 ^ 63" by (rule Suc.prems(2))
    finally show ?thesis by (simp only: L')
  qed
  then have "unat (gcd_loop s n ?L) = gcd (unat ?L) (Gcd (set (take n (map unat s))))"
    using Suc.prems n by (intro Suc.IH) simp_all
  then show ?case using n
    by (simp add: L' take_Suc_conv_app_nth gcd.assoc)
qed

lemma gcd_loop_Gcd:
  assumes "\<forall>x\<in>set s. unat x < 2 ^ 63" "u < length s"
  shows "unat (gcd_loop s u (s ! u)) = Gcd (set (take (Suc u) (map unat s)))"
  using assms gcd_loop_unat [of s "s ! u" u]
  by (simp add: take_Suc_conv_app_nth)

subsection \<open>The code refines the reference on non-negative strides\<close>

lemma outer_loop_refines:
  "\<forall>x\<in>set s. unat x < 2 ^ 63 \<Longrightarrow> n < length s \<Longrightarrow>
   abs_result (outer_loop n (Ltot, s)) = ref_loop n (map unat Ltot, map unat s)"
proof (induction n arbitrary: Ltot s)
  case 0 then show ?case by (simp add: abs_result_def)
next
  case (Suc n)
  let ?L = "gcd_loop s n (s ! n)"
  have n: "n < length s" using Suc.prems by simp
  have uL: "unat ?L = Gcd (set (take (Suc n) (map unat s)))"
    using Suc.prems(1) n by (rule gcd_loop_Gcd)
  show ?case
  proof (cases "?L = 0")
    case True
    then have "Gcd (set (take (Suc n) (map unat s))) = 0" using uL by simp
    then show ?thesis using True
      by (simp add: abs_result_def ref_step_def)
  next
    case False
    let ?s' = "map (\<lambda>x. x div ?L) (take (Suc n) s) @ drop (Suc n) s"
    have dl: "div_loop s (Suc n) ?L = Inr ?s'"
      using False n by (intro div_loop_eq) simp_all
    have nz: "Gcd (set (take (Suc n) (map unat s))) \<noteq> 0"
      using False uL by (simp flip: unat_eq_0)
    have ms': "map unat ?s' =
        map (\<lambda>x. x div unat ?L) (take (Suc n) (map unat s)) @ drop (Suc n) (map unat s)"
      by (simp add: unat_div take_map drop_map comp_def)
    have bound: "\<forall>x\<in>set ?s'. unat x < 2 ^ 63"
    proof
      fix x assume "x \<in> set ?s'"
      then consider y where "y \<in> set (take (Suc n) s)" "x = y div ?L" | "x \<in> set (drop (Suc n) s)"
        by auto
      then show "unat x < 2 ^ 63"
      proof cases
        case 1
        then have "y \<in> set s" by (meson in_set_takeD)
        then have "unat y < 2 ^ 63" using Suc.prems(1) by simp
        moreover have "unat x \<le> unat y" using 1 by (simp add: unat_div)
        ultimately show ?thesis by (rule le_less_trans [rotated])
      next
        case 2
        then have "x \<in> set s" by (meson in_set_dropD)
        then show ?thesis using Suc.prems(1) by simp
      qed
    qed
    have len: "n < length ?s'" using n by simp
    have "abs_result (outer_loop n (Ltot[Suc n := ?L], ?s')) =
        ref_loop n (map unat (Ltot[Suc n := ?L]), map unat ?s')"
      using bound len by (rule Suc.IH)
    then show ?thesis
      using dl nz uL ms' by (simp add: ref_step_def map_update Let_def)
  qed
qed

lemma get_L_tot_refines:
  assumes nonneg: "\<forall>x\<in>set stri. 0 \<le> sint x" and rank: "rank = int (length stri)"
  shows "abs_result (get_L_tot_and_strides_h5 stri rank total_size) =
         ref_L_tot_and_strides_h5 (map unat stri) (length stri) (unat total_size)"
proof -
  have bound: "\<forall>x\<in>set stri. unat x < 2 ^ 63"
    using nonneg by (simp add: sint_nonneg_iff)
  show ?thesis
  proof (cases "stri = [] \<or> total_size = 0")
    case True
    then show ?thesis using rank
      by (auto simp: get_L_tot_and_strides_h5_def ref_L_tot_and_strides_h5_def abs_result_def
          unat_eq_0)
  next
    case False
    then have pos: "0 < length stri" and ts: "total_size \<noteq> 0" by simp_all
    have copy: "map (\<lambda>u. stri ! u) [0..<length stri] = stri" by (rule map_nth)
    have "abs_result (outer_loop (length stri - 1) ((replicate (length stri) 0)[0 := total_size], stri)) =
        ref_loop (length stri - 1)
          (map unat ((replicate (length stri) 0)[0 := total_size]), map unat stri)"
      using bound pos by (intro outer_loop_refines) simp_all
    then show ?thesis using rank pos ts copy
      by (simp add: get_L_tot_and_strides_h5_def ref_L_tot_and_strides_h5_def map_update
          unat_eq_0 Let_def)
  qed
qed

subsection \<open>When the division loop divides by zero\<close>

lemma gcd_loop_nonzero:
  "s ! 0 \<noteq> 0 \<Longrightarrow> 0 < n \<Longrightarrow> gcd_loop s n L \<noteq> 0 \<and> unat (gcd_loop s n L) dvd unat (s ! 0)"
proof (induction n arbitrary: L)
  case 0 then show ?case by simp
next
  case (Suc n)
  show ?case
  proof (cases n)
    case 0
    have "unat (std_gcd L (s ! 0)) \<noteq> 0" using Suc.prems(1)
      by (simp add: unat_std_gcd unat_eq_0)
    then have "std_gcd L (s ! 0) \<noteq> 0" by (simp add: unat_eq_0)
    then show ?thesis using 0 by (simp add: unat_std_gcd)
  next
    case (Suc m)
    then show ?thesis using Suc.IH [of "std_gcd L (s ! n)"] Suc.prems by simp
  qed
qed

lemma divisor_nonzero:
  assumes "s ! 0 \<noteq> 0"
  shows "gcd_loop s u (s ! u) \<noteq> 0 \<and> unat (gcd_loop s u (s ! u)) dvd unat (s ! 0)"
proof (cases u)
  case 0 then show ?thesis using assms by simp
next
  case (Suc m) then show ?thesis using gcd_loop_nonzero [OF assms, of u "s ! u"] by simp
qed

lemma quotient_nonzero:
  fixes x L :: "64 word"
  assumes "x \<noteq> 0" "L \<noteq> 0" "unat L dvd unat x"
  shows "x div L \<noteq> 0"
proof -
  have "unat x \<noteq> 0" "unat L \<noteq> 0" using assms by (simp_all add: unat_eq_0)
  then have "unat x div unat L \<noteq> 0" using assms(3)
    by (meson dvd_div_eq_0_iff)
  then show ?thesis by (metis unat_div unat_0)
qed

lemma outer_loop_total:
  "s ! 0 \<noteq> 0 \<Longrightarrow> n < length s \<Longrightarrow> \<exists>res. outer_loop n (Ltot, s) = Inr res"
proof (induction n arbitrary: Ltot s)
  case 0 then show ?case by simp
next
  case (Suc n)
  let ?L = "gcd_loop s n (s ! n)"
  let ?s' = "map (\<lambda>x. x div ?L) (take (Suc n) s) @ drop (Suc n) s"
  have L: "?L \<noteq> 0" "unat ?L dvd unat (s ! 0)" using divisor_nonzero [OF Suc.prems(1)] by simp_all
  have dl: "div_loop s (Suc n) ?L = Inr ?s'"
    using L(1) Suc.prems(2) by (intro div_loop_eq) simp_all
  have "?s' ! 0 = s ! 0 div ?L" using Suc.prems(2) by (simp add: nth_append)
  then have "?s' ! 0 \<noteq> 0" using quotient_nonzero [OF Suc.prems(1) L] by simp
  moreover have "n < length ?s'" using Suc.prems(2) by simp
  ultimately have "\<exists>res. outer_loop n (Ltot[Suc n := ?L], ?s') = Inr res" by (rule Suc.IH)
  then show ?case using dl by (simp add: Let_def)
qed

lemma outer_loop_zero:
  "s ! 0 = 0 \<Longrightarrow> 0 < n \<Longrightarrow> n < length s \<Longrightarrow> outer_loop n (Ltot, s) = Inl Division_by_zero"
proof (induction n arbitrary: Ltot s)
  case 0 then show ?case by simp
next
  case (Suc n)
  let ?L = "gcd_loop s n (s ! n)"
  let ?s' = "map (\<lambda>x. x div ?L) (take (Suc n) s) @ drop (Suc n) s"
  show ?case
  proof (cases "?L = 0")
    case True then show ?thesis by (simp add: Let_def)
  next
    case False
    have dl: "div_loop s (Suc n) ?L = Inr ?s'"
      using False Suc.prems(3) by (intro div_loop_eq) simp_all
    have n: "0 < n" using False Suc.prems(1) by (cases n) simp_all
    have "?s' ! 0 = s ! 0 div ?L" using Suc.prems(3) by (simp add: nth_append)
    then have "?s' ! 0 = 0" using Suc.prems(1) by simp
    moreover have "n < length ?s'" using Suc.prems(3) by simp
    ultimately have "outer_loop n (Ltot[Suc n := ?L], ?s') = Inl Division_by_zero"
      using n by (intro Suc.IH)
    then show ?thesis using dl by (simp add: Let_def)
  qed
qed

lemma get_L_tot_returns:
  assumes "rank = int (length stri)" "length stri \<le> 1 \<or> total_size = 0 \<or> stri ! 0 \<noteq> 0"
  shows "\<exists>res. get_L_tot_and_strides_h5 stri rank total_size = Inr res"
proof -
  have copy: "map (\<lambda>u. stri ! u) [0..<length stri] = stri" by (rule map_nth)
  consider "length stri = 0" | "length stri = 1" | "total_size = 0" "2 \<le> length stri"
    | "total_size \<noteq> 0" "2 \<le> length stri" "stri ! 0 \<noteq> 0"
    using assms(2) by linarith
  then show ?thesis
  proof cases
    case 1 then show ?thesis using assms by (simp add: get_L_tot_and_strides_h5_def)
  next
    case 2 then show ?thesis using assms by (simp add: get_L_tot_and_strides_h5_def copy)
  next
    case 3 then show ?thesis using assms by (simp add: get_L_tot_and_strides_h5_def)
  next
    case 4
    have "\<exists>res. outer_loop (length stri - 1) ((replicate (length stri) 0)[0 := total_size], stri) = Inr res"
      using 4 by (intro outer_loop_total) simp_all
    then show ?thesis using 4 assms(1) by (auto simp: get_L_tot_and_strides_h5_def copy)
  qed
qed

lemma get_L_tot_divides_by_zero:
  assumes "rank = int (length stri)" "2 \<le> length stri" "total_size \<noteq> 0" "stri ! 0 = 0"
  shows "get_L_tot_and_strides_h5 stri rank total_size = Inl Division_by_zero"
proof -
  have copy: "map (\<lambda>u. stri ! u) [0..<length stri] = stri" by (rule map_nth)
  have "outer_loop (length stri - 1) ((replicate (length stri) 0)[0 := total_size], stri) = Inl Division_by_zero"
    using assms by (intro outer_loop_zero) simp_all
  then show ?thesis using assms by (auto simp: get_L_tot_and_strides_h5_def copy)
qed

subsection \<open>Every original stride is the new stride times the inner extents\<close>

lemma ref_loop_weights:
  fixes s :: "nat list"
  shows "ref_loop n (Ltot, s) = Some (Ltot', s') \<Longrightarrow> length s = r \<Longrightarrow> length Ltot = r \<Longrightarrow> n < r \<Longrightarrow>
   length s' = r \<and> length Ltot' = r \<and> Ltot' ! 0 = Ltot ! 0 \<and>
   (\<forall>e. n < e \<longrightarrow> e < r \<longrightarrow> Ltot' ! e = Ltot ! e) \<and>
   (\<forall>d<r. s ! d = s' ! d * prod_list (take (n - d) (drop (Suc d) Ltot')))"
proof (induction n arbitrary: Ltot s)
  case 0 then show ?case by simp
next
  case (Suc n)
  let ?L = "Gcd (set (take (Suc n) s))"
  let ?Ltot1 = "Ltot[Suc n := ?L]"
  let ?s1 = "map (\<lambda>x. x div ?L) (take (Suc n) s) @ drop (Suc n) s"
  from Suc.prems(1) have L: "?L \<noteq> 0" and rec: "ref_loop n (?Ltot1, ?s1) = Some (Ltot', s')"
    by (auto simp: ref_step_def Let_def split: if_splits option.splits)
  have len1: "length ?s1 = r" "length ?Ltot1 = r" using Suc.prems by simp_all
  have n: "n < r" using Suc.prems by simp
  note IH = Suc.IH [OF rec len1 n]
  have LSn: "Ltot' ! Suc n = ?L" using IH Suc.prems by simp
  have "s ! d = s' ! d * prod_list (take (Suc n - d) (drop (Suc d) Ltot'))" if d: "d < r" for d
  proof (cases "d \<le> n")
    case True
    have "s ! d \<in> set (take (Suc n) s)" using True Suc.prems d
      by (metis in_set_conv_nth length_take min_less_iff_conj nth_take le_imp_less_Suc)
    then have dvd: "?L dvd s ! d" by (rule Gcd_dvd)
    have "?s1 ! d = s ! d div ?L" using True Suc.prems d by (simp add: nth_append)
    then have "s ! d = ?s1 ! d * ?L" using dvd by simp
    also have "?s1 ! d = s' ! d * prod_list (take (n - d) (drop (Suc d) Ltot'))"
      using IH d by blast
    finally have eq: "s ! d = s' ! d * (prod_list (take (n - d) (drop (Suc d) Ltot')) * ?L)"
      by (simp add: mult.assoc)
    have "take (Suc n - d) (drop (Suc d) Ltot') =
          take (n - d) (drop (Suc d) Ltot') @ [drop (Suc d) Ltot' ! (n - d)]"
      using True IH Suc.prems(4) by (simp add: Suc_diff_le take_Suc_conv_app_nth)
    moreover have "drop (Suc d) Ltot' ! (n - d) = ?L"
      using True IH Suc.prems(4) LSn by simp
    ultimately show ?thesis using eq by simp
  next
    case False
    then have "?s1 ! d = s ! d" using Suc.prems d by (simp add: nth_append)
    moreover have "?s1 ! d = s' ! d * prod_list (take (n - d) (drop (Suc d) Ltot'))"
      using IH d by blast
    ultimately show ?thesis using False by simp
  qed
  moreover have "\<forall>e. Suc n < e \<longrightarrow> e < r \<longrightarrow> Ltot' ! e = Ltot ! e"
    using IH by simp
  moreover have "Ltot' ! 0 = Ltot ! 0" using IH by simp
  ultimately show ?case using IH by blast
qed

lemma int_prod_list_unat: "int (prod_list (map unat xs)) = prod_list (map uint xs)"
  for xs :: "64 word list"
  by (induction xs) simp_all

lemma stride_weights:
  assumes nonneg: "\<forall>x\<in>set stri. 0 \<le> sint x" and rank: "rank = int (length stri)"
    and ts: "total_size \<noteq> 0" and ne: "stri \<noteq> []"
    and res: "get_L_tot_and_strides_h5 stri rank total_size = Inr (Ltot, s)"
  shows "length Ltot = length stri \<and> length s = length stri \<and> Ltot ! 0 = total_size \<and>
         (\<forall>d<length stri. sint (stri ! d) = uint (s ! d) * prod_list (map uint (drop (Suc d) Ltot)))"
proof -
  let ?r = "length stri"
  have r: "0 < ?r" using ne by simp
  have "ref_L_tot_and_strides_h5 (map unat stri) ?r (unat total_size) =
        Some (map unat Ltot, map unat s)"
    using get_L_tot_refines [OF nonneg rank, of total_size] res by (simp add: abs_result_def)
  then have loop: "ref_loop (?r - 1) ((replicate ?r 0)[0 := unat total_size], map unat stri) =
        Some (map unat Ltot, map unat s)"
    using r ts by (simp add: ref_L_tot_and_strides_h5_def unat_eq_0)
  have w: "length (map unat s) = ?r \<and> length (map unat Ltot) = ?r \<and>
      map unat Ltot ! 0 = (replicate ?r 0)[0 := unat total_size] ! 0 \<and>
      (\<forall>e. ?r - 1 < e \<longrightarrow> e < ?r \<longrightarrow> map unat Ltot ! e = (replicate ?r 0)[0 := unat total_size] ! e) \<and>
      (\<forall>d<?r. map unat stri ! d =
          map unat s ! d * prod_list (take (?r - 1 - d) (drop (Suc d) (map unat Ltot))))"
    using r by (intro ref_loop_weights [OF loop]) simp_all
  then have len: "length s = ?r" "length Ltot = ?r" by simp_all
  have "unat (Ltot ! 0) = unat total_size" using w r len by simp
  then have L0: "Ltot ! 0 = total_size" by (simp add: word_unat_eq_iff)
  have "sint (stri ! d) = uint (s ! d) * prod_list (map uint (drop (Suc d) Ltot))"
    if d: "d < ?r" for d
  proof -
    have "0 \<le> sint (stri ! d)" using nonneg d by simp
    then have "sint (stri ! d) = int (unat (stri ! d))" by (simp add: uint_eq_sint_nonneg [symmetric])
    also have "unat (stri ! d) = unat (s ! d) * prod_list (take (?r - 1 - d) (drop (Suc d) (map unat Ltot)))"
      using w d len by simp
    also have "take (?r - 1 - d) (drop (Suc d) (map unat Ltot)) = map unat (drop (Suc d) Ltot)"
      using len by (simp add: drop_map)
    finally show ?thesis by (simp add: int_prod_list_unat)
  qed
  then show ?thesis using len L0 by simp
qed

lemma offsets_agree:
  assumes "length Ltot = length stri"
    and "\<forall>d<length stri. sint (stri ! d) = uint (s ! d) * prod_list (map uint (drop (Suc d) Ltot))"
  shows "linear_offset Ltot (h5_coord off s idx) =
         linear_offset Ltot (\<lambda>d. uint (off ! d)) + stri_offset stri idx"
proof -
  have "h5_coord off s idx d * prod_list (map uint (drop (Suc d) Ltot)) =
        uint (off ! d) * prod_list (map uint (drop (Suc d) Ltot)) + int (idx ! d) * sint (stri ! d)"
    if "d \<in> set [0..<length stri]" for d
    using that assms(2) by (simp add: h5_coord_def distrib_right mult.assoc)
  then have eq: "map (\<lambda>d. h5_coord off s idx d * prod_list (map uint (drop (Suc d) Ltot)))
            [0..<length stri] =
        map (\<lambda>d. uint (off ! d) * prod_list (map uint (drop (Suc d) Ltot)) +
                int (idx ! d) * sint (stri ! d)) [0..<length stri]"
    by (intro map_cong [OF refl])
  show ?thesis
    unfolding linear_offset_def stri_offset_def assms(1) eq
    by (simp add: sum_list_addf)
qed

lemma roundtrip_holds:
  assumes nonneg: "\<forall>x\<in>set stri. 0 \<le> sint x" and rank: "rank = int (length stri)"
    and ts: "total_size \<noteq> 0" and ne: "stri \<noteq> []"
    and lead: "length stri \<le> 1 \<or> stri ! 0 \<noteq> 0"
  shows "decomposition_roundtrip stri rank total_size off cnt"
proof -
  obtain Ltot s where res: "get_L_tot_and_strides_h5 stri rank total_size = Inr (Ltot, s)"
    using get_L_tot_returns [OF rank, of total_size] lead by auto
  note w = stride_weights [OF nonneg rank ts ne res]
  have "linear_offset Ltot (h5_coord off s idx) =
         linear_offset Ltot (\<lambda>d. uint (off ! d)) + stri_offset stri idx" for idx
    using w by (intro offsets_agree) simp_all
  then show ?thesis using w res
    by (simp add: decomposition_roundtrip_def visited_h5_def visited_stri_def)
qed

subsection \<open>Evaluation on concrete inputs\<close>

lemma outer_loop_numeral: "outer_loop (numeral k) p = outer_loop (Suc (pred_numeral k)) p"
  by (simp add: numeral_eq_Suc)

lemma gcd_loop_numeral: "gcd_loop s (numeral k) L = gcd_loop s (Suc (pred_numeral k)) L"
  by (simp add: numeral_eq_Suc)

lemma div_loop_numeral: "div_loop s (numeral k) L = div_loop s (Suc (pred_numeral k)) L"
  by (simp add: numeral_eq_Suc)

lemma ref_loop_numeral: "ref_loop (numeral k) p = ref_loop (Suc (pred_numeral k)) p"
  by (simp add: numeral_eq_Suc)

lemma replicate_numeral_eval: "replicate (numeral k) x = x # replicate (pred_numeral k) x"
  by (simp add: numeral_eq_Suc)

lemma gcd_numeral_eval: "gcd (numeral a) (numeral b) = gcd (numeral b) (numeral a mod numeral b :: nat)"
  by (rule gcd_red_nat)

lemmas eval_loops = outer_loop_numeral gcd_loop_numeral div_loop_numeral ref_loop_numeral
  replicate_numeral_eval gcd_numeral_eval

lemma eval_negative_stride: "get_L_tot_and_strides_h5 [3, - 3, 1] 3 6 = Inr ([6, 1, 3], [1, 6148914691236517204, 1])"
  by (simp add: get_L_tot_and_strides_h5_def eval_loops std_gcd_def upt_rec)

lemma eval_reference_negative_stride: "ref_L_tot_and_strides_h5 (map unat [3, - 3, 1 :: long]) 3 (unat (6 :: long)) = Some ([6, 3, 1], [1, 18446744073709551613, 1])"
  by (simp add: ref_L_tot_and_strides_h5_def eval_loops ref_step_def)

lemma eval_reference_negative_stride_signed:
  "ref_L_tot_and_strides_h5 (map sint [3, - 3, 1 :: long]) 3 (sint (6 :: long)) =
   Some ([6, 1, 3], [1, - 1, 1])"
  by (simp add: ref_L_tot_and_strides_h5_def eval_loops ref_step_def)

lemma eval_compact_strides:
  "get_L_tot_and_strides_h5 [12, 4, 1] 3 24 = Inr ([24, 3, 4], [1, 1, 1])"
  by (simp add: get_L_tot_and_strides_h5_def eval_loops std_gcd_def upt_rec)

subsection \<open>Claims on the stride decomposition\<close>

text \<open>
  C1 (amended).  For a stride vector of matching rank whose entries are non-negative as signed
  64-bit values, \<open>get_L_tot_and_strides_h5\<close> equals the reference definition: both outputs
  empty for rank 0; \<open>r\<close> zeros and \<open>r\<close> ones for \<open>total_size = 0\<close>; otherwise
  \<open>L_tot[0] = total_size\<close> and, for \<open>u\<close> from \<open>r - 2\<close> down to \<open>0\<close>, the greatest common
  divisor \<open>L\<close> of \<open>strides_h5[u], ..., strides_h5[0]\<close> divides these entries and is stored in
  \<open>L_tot[u + 1]\<close>.  Where the reference divides by \<open>L = 0\<close> and has no value, the code
  divides by zero and returns nothing.
\<close>

theorem get_L_tot_and_strides_h5_refines_reference:
  assumes "\<forall>x\<in>set stri. 0 \<le> sint x" and "rank = int (length stri)"
  shows "abs_result (get_L_tot_and_strides_h5 stri rank total_size) =
         ref_L_tot_and_strides_h5 (map unat stri) (length stri) (unat total_size)"
  using assms by (rule get_L_tot_refines)

theorem get_L_tot_and_strides_h5_refines_reference_witness:
  "abs_result (get_L_tot_and_strides_h5 [12, 4, 1] 3 24) =
     ref_L_tot_and_strides_h5 (map unat [12, 4, 1 :: long]) (length [12, 4, 1 :: long])
       (unat (24 :: long)) \<and>
   abs_result (get_L_tot_and_strides_h5 [12, 4, 1] 3 24) = Some ([24, 3, 4], [1, 1, 1])"
proof (rule conjI)
  show "abs_result (get_L_tot_and_strides_h5 [12, 4, 1] 3 24) =
     ref_L_tot_and_strides_h5 (map unat [12, 4, 1 :: long]) (length [12, 4, 1 :: long])
       (unat (24 :: long))"
    by (rule get_L_tot_and_strides_h5_refines_reference) simp_all
  show "abs_result (get_L_tot_and_strides_h5 [12, 4, 1] 3 24) = Some ([24, 3, 4], [1, 1, 1])"
    by (simp add: eval_compact_strides abs_result_def)
qed

text \<open>
  The claim without the restriction fails at the strides \<open>(3, -3, 1)\<close>: the code takes the
  greatest common divisor of \<open>|-3|\<close> and \<open>3\<close>, which is \<open>3\<close>, and then divides the unsigned
  value \<open>2^64 - 3\<close> of the stride by it.  Read as unsigned numbers, the greatest common
  divisor of \<open>2^64 - 3\<close> and \<open>3\<close> is \<open>1\<close>, not \<open>3\<close>; read as signed numbers, \<open>-3\<close> divided
  by \<open>3\<close> is \<open>-1\<close>, not \<open>6148914691236517204\<close>.  The output is the reference under neither
  reading.
\<close>

theorem get_L_tot_and_strides_h5_negative_stride_counterexample:
  "get_L_tot_and_strides_h5 [3, - 3, 1] 3 6 = Inr ([6, 1, 3], [1, 6148914691236517204, 1]) \<and>
   abs_result (get_L_tot_and_strides_h5 [3, - 3, 1] 3 6) \<noteq>
     ref_L_tot_and_strides_h5 (map unat [3, - 3, 1 :: long]) 3 (unat (6 :: long)) \<and>
   abs_result_signed (get_L_tot_and_strides_h5 [3, - 3, 1] 3 6) \<noteq>
     ref_L_tot_and_strides_h5 (map sint [3, - 3, 1 :: long]) 3 (sint (6 :: long))"
  by (simp only: eval_negative_stride eval_reference_negative_stride
      eval_reference_negative_stride_signed abs_result_def abs_result_signed_def) simp

text \<open>
  C2 (amended).  For every rank \<open>r \<ge> 1\<close>, every stride vector of length \<open>r\<close> whose entries are
  non-negative as signed 64-bit values and whose first entry is not zero when \<open>r \<ge> 2\<close>, and
  every \<open>total_size\<close> other than zero, \<open>get_L_tot_and_strides_h5\<close> returns a pair with
  \<open>L_tot[0] = total_size\<close> such that, for every hyperslab offset and every vector of counts
  (both of length \<open>r\<close>), the composite addressing \<open>off[d] + idx[d] * strides_h5[d]\<close> in the row-major layout with
  extents \<open>L_tot\<close> visits exactly the linear offsets that the original strides visit.
\<close>

theorem stride_decomposition_roundtrip:
  assumes "\<forall>x\<in>set stri. 0 \<le> sint x" and "rank = int (length stri)"
    and "total_size \<noteq> 0" and "stri \<noteq> []"
    and "length stri \<le> 1 \<or> stri ! 0 \<noteq> 0"
    and "length off = length stri" and "length cnt = length stri"
  shows "decomposition_roundtrip stri rank total_size off cnt"
  using assms(1-5) by (rule roundtrip_holds)

theorem stride_decomposition_roundtrip_witness:
  "decomposition_roundtrip [12, 4, 1] 3 24 [0, 1, 2] [2, 2, 2]"
  by (rule stride_decomposition_roundtrip) simp_all

text \<open>
  With the stride \<open>-3\<close> the round trip fails: the index vector \<open>(0, 1, 0)\<close> lies at the offset
  \<open>-3\<close> with the original strides and at \<open>6148914691236517204 * 3 = 2^64 - 4\<close> through the
  decomposition, and the two sets of offsets differ also modulo \<open>2^64\<close>.
\<close>

theorem stride_decomposition_roundtrip_counterexample:
  "get_L_tot_and_strides_h5 [3, - 3, 1] 3 6 = Inr ([6, 1, 3], [1, 6148914691236517204, 1]) \<and>
   \<not> decomposition_roundtrip [3, - 3, 1] 3 6 [0, 0, 0] [1, 2, 1] \<and>
   wrap64 (visited_h5 [6, 1, 3] [1, 6148914691236517204, 1] [0, 0, 0] [1, 2, 1]) \<noteq>
   wrap64 (visited_stri 0 [3, - 3, 1] [1, 2, 1])"
  by (simp add: decomposition_roundtrip_def eval_negative_stride visited_h5_def visited_stri_def
      index_vectors_def linear_offset_def h5_coord_def stri_offset_def upt_rec doubleton_eq_iff
      wrap64_def)

text \<open>
  C3 (amended).  For a stride vector of matching rank, with any 64-bit stride values,
  \<open>get_L_tot_and_strides_h5\<close> returns a result exactly when the rank is at most 1, or
  \<open>total_size\<close> is zero, or the first stride is not zero; when the rank is at least 2,
  \<open>total_size\<close> is not zero and the first stride is zero, the division loop divides by zero.
  Rank 0 and \<open>total_size = 0\<close> are answered before the loop: with two empty vectors, and with
  \<open>rank\<close> zeros and \<open>rank\<close> ones.
\<close>

theorem get_L_tot_and_strides_h5_returns_iff:
  assumes "rank = int (length stri)"
  shows "((\<exists>res. get_L_tot_and_strides_h5 stri rank total_size = Inr res) \<longleftrightarrow>
            (length stri \<le> 1 \<or> total_size = 0 \<or> stri ! 0 \<noteq> 0)) \<and>
         (2 \<le> length stri \<and> total_size \<noteq> 0 \<and> stri ! 0 = 0 \<longrightarrow>
            get_L_tot_and_strides_h5 stri rank total_size = Inl Division_by_zero) \<and>
         (rank = 0 \<longrightarrow> get_L_tot_and_strides_h5 stri rank total_size = Inr ([], [])) \<and>
         (rank \<noteq> 0 \<and> total_size = 0 \<longrightarrow>
            get_L_tot_and_strides_h5 stri rank total_size =
              Inr (replicate (nat rank) 0, replicate (nat rank) 1))"
proof (intro conjI impI)
  show "(\<exists>res. get_L_tot_and_strides_h5 stri rank total_size = Inr res) \<longleftrightarrow>
        (length stri \<le> 1 \<or> total_size = 0 \<or> stri ! 0 \<noteq> 0)"
  proof
    assume ret: "\<exists>res. get_L_tot_and_strides_h5 stri rank total_size = Inr res"
    show "length stri \<le> 1 \<or> total_size = 0 \<or> stri ! 0 \<noteq> 0"
    proof (rule ccontr)
      assume "\<not> (length stri \<le> 1 \<or> total_size = 0 \<or> stri ! 0 \<noteq> 0)"
      then have "2 \<le> length stri" "total_size \<noteq> 0" "stri ! 0 = 0" by simp_all
      then have "get_L_tot_and_strides_h5 stri rank total_size = Inl Division_by_zero"
        by (rule get_L_tot_divides_by_zero [OF assms])
      with ret show False by simp
    qed
  next
    assume "length stri \<le> 1 \<or> total_size = 0 \<or> stri ! 0 \<noteq> 0"
    then show "\<exists>res. get_L_tot_and_strides_h5 stri rank total_size = Inr res"
      by (rule get_L_tot_returns [OF assms])
  qed
next
  assume "2 \<le> length stri \<and> total_size \<noteq> 0 \<and> stri ! 0 = 0"
  then show "get_L_tot_and_strides_h5 stri rank total_size = Inl Division_by_zero"
    using get_L_tot_divides_by_zero [OF assms] by blast
next
  assume "rank = 0"
  then show "get_L_tot_and_strides_h5 stri rank total_size = Inr ([], [])"
    by (simp add: get_L_tot_and_strides_h5_def)
next
  assume "rank \<noteq> 0 \<and> total_size = 0"
  then show "get_L_tot_and_strides_h5 stri rank total_size =
      Inr (replicate (nat rank) 0, replicate (nat rank) 1)"
    using assms by (simp add: get_L_tot_and_strides_h5_def)
qed

theorem get_L_tot_and_strides_h5_returns_iff_witness:
  "(\<exists>res. get_L_tot_and_strides_h5 [12, 4, 1] 3 24 = Inr res) \<and>
   get_L_tot_and_strides_h5 [0, 4, 1] 3 24 = Inl Division_by_zero"
proof (rule conjI)
  have r: "(3::int) = int (length [12, 4, 1 :: long])" by simp
  show "\<exists>res. get_L_tot_and_strides_h5 [12, 4, 1] 3 24 = Inr res"
    using get_L_tot_and_strides_h5_returns_iff [OF r, of 24] by simp
  have r': "(3::int) = int (length [0, 4, 1 :: long])" by simp
  show "get_L_tot_and_strides_h5 [0, 4, 1] 3 24 = Inl Division_by_zero"
    using get_L_tot_and_strides_h5_returns_iff [OF r', of 24] by simp
qed

text \<open>
  The claim that no division by zero occurs fails at the strides \<open>(0, 1)\<close> of rank 2: the
  only iteration has \<open>u = 0\<close>, takes \<open>L = strides_h5[0] = 0\<close> and divides \<open>strides_h5[0]\<close>
  by it.
\<close>

theorem get_L_tot_and_strides_h5_division_by_zero_counterexample:
  "get_L_tot_and_strides_h5 [0, 1] 2 6 = Inl Division_by_zero"
  by (simp add: get_L_tot_and_strides_h5_def eval_loops upt_rec)

section \<open>Properties of the library calls\<close>

subsection \<open>The dataspace builder\<close>

declare string_of_nat.simps [simp del]

lemma dataspaces_snoc: "dataspaces lib (tr @ [e]) = apply_event lib tr e (dataspaces lib tr)"
  by (simp add: dataspaces_def)

lemma dataspaces_snoc2:
  "dataspaces lib (tr @ [e1, e2]) =
   apply_event lib (tr @ [e1]) e2 (apply_event lib tr e1 (dataspaces lib tr))"
  by (simp add: dataspaces_def)

lemma make_mem_dspace_scalar:
  "view_rank v = 0 \<Longrightarrow>
   make_mem_dspace lib v tr = (Inr (ret lib tr H5Screate_SCALAR), tr @ [H5Screate_SCALAR])"
  by (simp add: make_mem_dspace_def call_def)

lemma make_mem_dspace_simple:
  assumes "view_rank v \<noteq> 0"
  shows "make_mem_dspace lib v tr =
    (let create = H5Screate_simple (view_rank v) (L_tot v);
         ds = ret lib tr create;
         tr1 = tr @ [create];
         select = H5Sselect_hyperslab_SET ds (offset (slab v)) (stride (slab v)) (count (slab v))
                    (if block (slab v) = [] then None else Some (block (slab v)))
     in if \<not> is_valid lib tr1 ds then (Inl (Runtime_error ''Cannot create the dataset''), tr1)
        else if ret lib tr1 select < 0 then (Inl (Runtime_error ''Cannot set hyperslab''), tr1 @ [select])
        else (Inr ds, tr1 @ [select]))"
  using assms by (simp add: make_mem_dspace_def call_def view_rank_def Let_def)

lemma make_mem_dspace_transfers:
  "transfers (snd (make_mem_dspace lib v tr)) = transfers tr"
  by (simp add: make_mem_dspace_def call_def transfers_def)

lemma make_mem_dspace_attribute_creations:
  "attribute_creations (snd (make_mem_dspace lib v tr)) = attribute_creations tr"
  by (simp add: make_mem_dspace_def call_def attribute_creations_def)

lemma make_mem_dspace_denotes:
  assumes "make_mem_dspace lib v tr = (Inr ds, tr')"
  shows "view_rank v \<noteq> 0 \<longrightarrow>
           dataspaces lib tr' ds =
             Some (Simple_space (L_tot v)
               (Select_hyperslab (offset (slab v)) (stride (slab v)) (count (slab v))
                 (if block (slab v) = [] then None else Some (block (slab v)))))"
    and "view_rank v = 0 \<longrightarrow> is_valid lib tr' ds \<longrightarrow> dataspaces lib tr' ds = Some Scalar_space"
  using assms
  by (auto simp: make_mem_dspace_def call_def dataspaces_snoc dataspaces_snoc2 apply_event_def view_rank_def
      split: if_splits)

subsection \<open>The events of \<open>write\<close>\<close>

lemma dataset_creation_properties_transfers:
  "transfers (snd (dataset_creation_properties lib v compress tr)) = transfers tr"
  by (simp add: dataset_creation_properties_def call_def transfers_def Let_def)

lemma dataset_creation_properties_attribute_creations:
  "attribute_creations (snd (dataset_creation_properties lib v compress tr)) = attribute_creations tr"
  by (simp add: dataset_creation_properties_def call_def attribute_creations_def Let_def)

lemma create_dataset_transfers:
  "transfers (snd (create_dataset lib g name v compress tr)) = transfers tr"
proof -
  obtain cparms tr2 where p: "dataset_creation_properties lib v compress (tr @ [Group_unlink g name]) = (cparms, tr2)"
    by (cases "dataset_creation_properties lib v compress (tr @ [Group_unlink g name])")
  have "transfers tr2 = transfers (tr @ [Group_unlink g name])"
    using dataset_creation_properties_transfers [of lib v compress "tr @ [Group_unlink g name]"] p by simp
  then have t2: "transfers tr2 = transfers tr" by (simp add: transfers_def)
  show ?thesis
    using p t2 by (simp add: create_dataset_def call_throwing_def call_def transfers_def split: option.splits)
qed

lemma create_dataset_attribute_creations:
  "attribute_creations (snd (create_dataset lib g name v compress tr)) = attribute_creations tr"
proof -
  obtain cparms tr2 where p: "dataset_creation_properties lib v compress (tr @ [Group_unlink g name]) = (cparms, tr2)"
    by (cases "dataset_creation_properties lib v compress (tr @ [Group_unlink g name])")
  have "attribute_creations tr2 = attribute_creations (tr @ [Group_unlink g name])"
    using dataset_creation_properties_attribute_creations [of lib v compress "tr @ [Group_unlink g name]"] p by simp
  then have t2: "attribute_creations tr2 = attribute_creations tr" by (simp add: attribute_creations_def)
  show ?thesis
    using p t2 by (simp add: create_dataset_def call_throwing_def call_def attribute_creations_def split: option.splits)
qed

lemma create_dataset_created:
  assumes "create_dataset lib g name v compress tr = (Inr ds, tr4)"
  shows "\<exists>past file_dspace cparms.
           tr4 = past @ [H5Dcreate2 g name (ty v) file_dspace H5P_DEFAULT cparms H5P_DEFAULT] \<and>
           ds = ret lib past (H5Dcreate2 g name (ty v) file_dspace H5P_DEFAULT cparms H5P_DEFAULT) \<and>
           is_valid lib tr4 ds"
  using assms
  by (auto simp: create_dataset_def call_throwing_def call_def split: option.splits prod.splits if_splits)

lemma write_transfer_transfers:
  "transfers (snd (write_transfer lib g name ds v m tr)) =
   transfers tr @ (if 0 < obs lib tr (H5Sget_simple_extent_npoints m)
                   then [H5Dwrite ds (ty v) m H5S_ALL H5P_DEFAULT (start v)] else [])"
  by (simp add: write_transfer_def call_def transfers_def)

lemma write_transfer_attribute_creations:
  "attribute_creations (snd (write_transfer lib g name ds v m tr)) = attribute_creations tr"
  by (simp add: write_transfer_def call_def attribute_creations_def)

lemma write_complex_marker_transfers:
  "transfers (snd (write_complex_marker lib ds v tr)) = transfers tr"
  by (simp add: write_complex_marker_def call_throwing_def transfers_def split: option.splits)

lemma write_complex_marker_events:
  "snd (write_complex_marker lib ds v tr) =
   (if is_complex v then tr @ [H5_write_attribute ds ''__complex__'' ''1''] else tr)"
  by (simp add: write_complex_marker_def call_throwing_def split: option.splits)

lemma write_complex_marker_result:
  "fst (write_complex_marker lib ds v tr) =
   (if is_complex v then
      (case thrown lib tr (H5_write_attribute ds ''__complex__'' ''1'') of
         Some msg \<Rightarrow> Inl (Propagated msg) | None \<Rightarrow> Inr ())
    else Inr ())"
  by (simp add: write_complex_marker_def call_throwing_def split: option.splits)

lemma write_dataset_create_fails:
  "create_dataset lib g name v compress tr = (Inl e, tr4) \<Longrightarrow>
   write_dataset lib g name v compress tr = (Inl e, tr4)"
  by (simp add: write_dataset_def)

lemma write_dataset_mem_dspace_fails:
  "create_dataset lib g name v compress tr = (Inr ds, tr4) \<Longrightarrow>
   make_mem_dspace lib v tr4 = (Inl e, tr5) \<Longrightarrow>
   write_dataset lib g name v compress tr = (Inl e, tr5)"
  by (simp add: write_dataset_def)

lemma write_dataset_reaches_transfer:
  "create_dataset lib g name v compress tr = (Inr ds, tr4) \<Longrightarrow>
   make_mem_dspace lib v tr4 = (Inr m, tr5) \<Longrightarrow>
   write_dataset lib g name v compress tr =
     (case write_transfer lib g name ds v m tr5 of
        (Inl e, tr6) \<Rightarrow> (Inl e, tr6)
      | (Inr u, tr6) \<Rightarrow> write_complex_marker lib ds v tr6)"
  by (simp add: write_dataset_def)

lemma write_dataset_transfers_reached:
  assumes c: "create_dataset lib g name v compress tr = (Inr ds, tr4)"
    and m: "make_mem_dspace lib v tr4 = (Inr m, tr5)"
  shows "transfers (snd (write_dataset lib g name v compress tr)) =
         transfers tr @ (if 0 < obs lib tr5 (H5Sget_simple_extent_npoints m)
                         then [H5Dwrite ds (ty v) m H5S_ALL H5P_DEFAULT (start v)] else [])"
proof -
  have t4: "transfers tr4 = transfers tr" using create_dataset_transfers [of lib g name v compress tr] c by simp
  have t5: "transfers tr5 = transfers tr4" using make_mem_dspace_transfers [of lib v tr4] m by simp
  obtain r tr6 where w: "write_transfer lib g name ds v m tr5 = (r, tr6)"
    by (cases "write_transfer lib g name ds v m tr5")
  have t6: "transfers tr6 = transfers tr5 @ (if 0 < obs lib tr5 (H5Sget_simple_extent_npoints m)
                         then [H5Dwrite ds (ty v) m H5S_ALL H5P_DEFAULT (start v)] else [])"
    using write_transfer_transfers [of lib g name ds v m tr5] w by simp
  show ?thesis
  proof (cases r)
    case (Inl e)
    then show ?thesis using write_dataset_reaches_transfer [OF c m] w t4 t5 t6 by simp
  next
    case (Inr u)
    then show ?thesis using write_dataset_reaches_transfer [OF c m] w t4 t5 t6
      by (simp add: write_complex_marker_transfers)
  qed
qed

lemma write_dataset_transfers_not_reached:
  assumes "\<not> (\<exists>ds tr4 m tr5. create_dataset lib g name v compress tr = (Inr ds, tr4) \<and>
              make_mem_dspace lib v tr4 = (Inr m, tr5))"
  shows "transfers (snd (write_dataset lib g name v compress tr)) = transfers tr"
proof -
  obtain r tr4 where c: "create_dataset lib g name v compress tr = (r, tr4)"
    by (cases "create_dataset lib g name v compress tr")
  have t4: "transfers tr4 = transfers tr" using create_dataset_transfers [of lib g name v compress tr] c by simp
  show ?thesis
  proof (cases r)
    case (Inl e)
    then show ?thesis using c t4 by (simp add: write_dataset_def)
  next
    case (Inr ds)
    obtain r' tr5 where m: "make_mem_dspace lib v tr4 = (r', tr5)"
      by (cases "make_mem_dspace lib v tr4")
    have t5: "transfers tr5 = transfers tr4" using make_mem_dspace_transfers [of lib v tr4] m by simp
    from assms c Inr m obtain e where "r' = Inl e" by (cases r') auto
    then show ?thesis using c Inr m t4 t5 by (simp add: write_dataset_def)
  qed
qed

lemma write_transfer_ok:
  "write_transfer lib g name ds v m tr5 = (Inr u, tr6) \<Longrightarrow>
   tr6 = tr5 @ (if 0 < obs lib tr5 (H5Sget_simple_extent_npoints m)
                then [H5Dwrite ds (ty v) m H5S_ALL H5P_DEFAULT (start v)] else [])"
  by (auto simp: write_transfer_def call_def split: if_splits)

lemma write_transfer_skipped:
  "\<not> 0 < obs lib tr (H5Sget_simple_extent_npoints m) \<Longrightarrow>
   write_transfer lib g name ds v m tr = (Inr (), tr)"
  by (simp add: write_transfer_def)

lemma write_dataset_marker:
  assumes c: "create_dataset lib g name v compress tr = (Inr ds, tr4)"
    and m: "make_mem_dspace lib v tr4 = (Inr m, tr5)"
    and w: "write_transfer lib g name ds v m tr5 = (Inr (), tr6)"
  shows "snd (write_dataset lib g name v compress tr) =
         (if is_complex v then tr6 @ [H5_write_attribute ds ''__complex__'' ''1''] else tr6)"
  using write_dataset_reaches_transfer [OF c m] w by (simp add: write_complex_marker_events)

lemma write_dataset_attribute_creations_changed:
  assumes ch: "attribute_creations (snd (write_dataset lib g name v compress tr)) \<noteq> attribute_creations tr"
  shows "is_complex v \<and>
         (\<exists>ds tr4 m tr5 tr6.
            create_dataset lib g name v compress tr = (Inr ds, tr4) \<and>
            make_mem_dspace lib v tr4 = (Inr m, tr5) \<and>
            write_transfer lib g name ds v m tr5 = (Inr (), tr6) \<and>
            snd (write_dataset lib g name v compress tr) =
              tr6 @ [H5_write_attribute ds ''__complex__'' ''1''])"
proof -
  obtain r tr4 where c: "create_dataset lib g name v compress tr = (r, tr4)"
    by (cases "create_dataset lib g name v compress tr")
  have a4: "attribute_creations tr4 = attribute_creations tr"
    using create_dataset_attribute_creations [of lib g name v compress tr] c by simp
  show ?thesis
  proof (cases r)
    case (Inl e)
    then show ?thesis using c a4 ch by (simp add: write_dataset_def)
  next
    case (Inr ds)
    obtain r' tr5 where m: "make_mem_dspace lib v tr4 = (r', tr5)"
      by (cases "make_mem_dspace lib v tr4")
    have a5: "attribute_creations tr5 = attribute_creations tr4"
      using make_mem_dspace_attribute_creations [of lib v tr4] m by simp
    show ?thesis
    proof (cases r')
      case (Inl e)
      then show ?thesis using c Inr m a4 a5 ch by (simp add: write_dataset_def)
    next
      case mok: (Inr md)
      obtain r'' tr6 where w: "write_transfer lib g name ds v md tr5 = (r'', tr6)"
        by (cases "write_transfer lib g name ds v md tr5")
      have a6: "attribute_creations tr6 = attribute_creations tr5"
        using write_transfer_attribute_creations [of lib g name ds v md tr5] w by simp
      show ?thesis
      proof (cases r'')
        case (Inl e)
        then show ?thesis using c Inr m mok w a4 a5 a6 ch by (simp add: write_dataset_def)
      next
        case wok: (Inr u)
        have ev: "snd (write_dataset lib g name v compress tr) =
            (if is_complex v then tr6 @ [H5_write_attribute ds ''__complex__'' ''1''] else tr6)"
          using c Inr m mok w wok by (simp add: write_dataset_def write_complex_marker_events)
        have cx: "is_complex v"
        proof (rule ccontr)
          assume "\<not> is_complex v"
          then show False using ev a4 a5 a6 ch by simp
        qed
        then show ?thesis using c Inr m mok w wok ev by auto
      qed
    qed
  qed
qed

lemma write_dataset_not_complex:
  assumes "\<not> is_complex v"
  shows "attribute_creations (snd (write_dataset lib g name v compress tr)) = attribute_creations tr"
  using assms write_dataset_attribute_creations_changed [of lib g name v compress tr] by blast

subsection \<open>The events of \<open>read\<close> and of the attribute functions\<close>

lemma read_checks_transfers:
  "transfers (snd (read_checks lib g name v lt tr)) = transfers tr"
  by (simp add: read_checks_def call_throwing_def call_def transfers_def Let_def split: option.splits)

lemma read_checks_mismatch:
  assumes "lt_rank lt \<noteq> view_rank v \<or> lengths lt \<noteq> count (slab v)"
  shows "\<exists>e. fst (read_checks lib g name v lt tr) = Inl e"
  using assms
  by (auto simp: read_checks_def call_throwing_def call_def Let_def split: option.splits)

lemma read_checks_open_ok:
  assumes "thrown lib tr (Group_open_dataset g name) = None"
  shows "read_checks lib g name v lt tr =
    (let ds = ret lib tr (Group_open_dataset g name);
         tr1 = tr @ [Group_open_dataset g name];
         file_dspace = ret lib tr1 (H5Dget_space ds);
         tr2 = tr1 @ [H5Dget_space ds]
     in if obs lib tr2 (H5Tget_class (ty v)) \<noteq> obs lib tr2 (H5Tget_class (ty_lt lt)) then
          (Inl (Runtime_error (incompatible_types_message lib tr2 (ty v) (ty_lt lt))), tr2)
        else
          (if lt_rank lt \<noteq> view_rank v then Inl (Runtime_error (rank_mismatch_message v lt))
           else if lengths lt \<noteq> count (slab v) then Inl (Runtime_error ''h5 read. Lengths mismatch'')
           else Inr (ds, file_dspace),
           if obs lib tr2 (Hdf5_type_equal (ty v) (ty_lt lt)) = 0
           then tr2 @ [Cerr (mismatching_types_warning lib tr2 (ty v) (ty_lt lt))]
           else tr2))"
  using assms by (simp add: read_checks_def call_throwing_def call_def Let_def)

lemma read_checks_fail:
  "read_checks lib g name v lt tr = (Inl e, tr3) \<Longrightarrow> read lib g name v lt tr = (Inl e, tr3)"
  by (simp add: read_def)

lemma read_mem_dspace_fails:
  "read_checks lib g name v lt tr = (Inr (ds, file_dspace), tr3) \<Longrightarrow>
   make_mem_dspace lib v tr3 = (Inl e, tr4) \<Longrightarrow>
   read lib g name v lt tr = (Inl e, tr4)"
  by (simp add: read_def)

lemma read_reaches_transfer:
  "read_checks lib g name v lt tr = (Inr (ds, file_dspace), tr3) \<Longrightarrow>
   make_mem_dspace lib v tr3 = (Inr m, tr4) \<Longrightarrow>
   read lib g name v lt tr = read_transfer lib g name ds file_dspace v m tr4"
  by (simp add: read_def)

lemma read_transfer_transfers:
  "transfers (snd (read_transfer lib g name ds file_dspace v m tr)) =
   transfers tr @ (if 0 < obs lib tr (H5Sget_simple_extent_npoints file_dspace)
                   then [H5Dread ds (ty v) m file_dspace H5P_DEFAULT (start v)] else [])"
  by (simp add: read_transfer_def call_def transfers_def)

lemma read_transfers_reached:
  assumes c: "read_checks lib g name v lt tr = (Inr (ds, file_dspace), tr3)"
    and m: "make_mem_dspace lib v tr3 = (Inr m, tr4)"
  shows "transfers (snd (read lib g name v lt tr)) =
         transfers tr @ (if 0 < obs lib tr4 (H5Sget_simple_extent_npoints file_dspace)
                         then [H5Dread ds (ty v) m file_dspace H5P_DEFAULT (start v)] else [])"
proof -
  have t3: "transfers tr3 = transfers tr" using read_checks_transfers [of lib g name v lt tr] c by simp
  have t4: "transfers tr4 = transfers tr3" using make_mem_dspace_transfers [of lib v tr3] m by simp
  show ?thesis
    using read_reaches_transfer [OF c m] t3 t4 by (simp add: read_transfer_transfers)
qed

lemma read_transfers_not_reached:
  assumes "\<not> (\<exists>ds file_dspace tr3 m tr4. read_checks lib g name v lt tr = (Inr (ds, file_dspace), tr3) \<and>
              make_mem_dspace lib v tr3 = (Inr m, tr4))"
  shows "transfers (snd (read lib g name v lt tr)) = transfers tr"
proof -
  obtain r tr3 where c: "read_checks lib g name v lt tr = (r, tr3)"
    by (cases "read_checks lib g name v lt tr")
  have t3: "transfers tr3 = transfers tr" using read_checks_transfers [of lib g name v lt tr] c by simp
  show ?thesis
  proof (cases r)
    case (Inl e)
    then show ?thesis using c t3 by (simp add: read_def)
  next
    case (Inr p)
    obtain ds file_dspace where p: "p = (ds, file_dspace)" by (cases p)
    obtain r' tr4 where m: "make_mem_dspace lib v tr3 = (r', tr4)"
      by (cases "make_mem_dspace lib v tr3")
    have t4: "transfers tr4 = transfers tr3" using make_mem_dspace_transfers [of lib v tr3] m by simp
    from assms c Inr p m obtain e where "r' = Inl e" by (cases r') auto
    then show ?thesis using c Inr p m t3 t4 by (simp add: read_def)
  qed
qed

lemma read_mismatch_fails:
  assumes "lt_rank lt \<noteq> view_rank v \<or> lengths lt \<noteq> count (slab v)"
  shows "(\<exists>e. fst (read lib g name v lt tr) = Inl e) \<and>
         transfers (snd (read lib g name v lt tr)) = transfers tr"
proof -
  obtain e where e: "fst (read_checks lib g name v lt tr) = Inl e"
    using read_checks_mismatch [OF assms] by blast
  then obtain tr3 where c: "read_checks lib g name v lt tr = (Inl e, tr3)"
    by (cases "read_checks lib g name v lt tr") simp
  have "transfers tr3 = transfers tr" using read_checks_transfers [of lib g name v lt tr] c by simp
  then show ?thesis using read_checks_fail [OF c] by simp
qed


lemma write_attribute_exists:
  "obs lib tr (H5LTfind_attribute obj name) \<noteq> 0 \<Longrightarrow>
   write_attribute lib obj name v tr =
     (Inl (Runtime_error (''The attribute '' @ name @ '' is already present. Can not overwrite'')), tr)"
  by (simp add: write_attribute_def)

lemma write_attribute_events_imply_absent:
  "snd (write_attribute lib obj name v tr) \<noteq> tr \<Longrightarrow> obs lib tr (H5LTfind_attribute obj name) = 0"
  by (rule ccontr) (simp add: write_attribute_exists)

lemma read_attribute_view_shape:
  "read_attribute lib obj name (v\<lparr>L_tot := L', slab := s'\<rparr>) tr = read_attribute lib obj name v tr"
  by (simp add: read_attribute_def call_def Let_def cong: if_cong)

lemma read_attribute_succeeds:
  "(let attr = ret lib tr (H5Aopen obj name H5P_DEFAULT);
        tr1 = tr @ [H5Aopen obj name H5P_DEFAULT];
        space = ret lib tr1 (H5Aget_space attr);
        tr2 = tr1 @ [H5Aget_space attr];
        stored_ty = ret lib tr2 (H5Aget_type attr);
        tr3 = tr2 @ [H5Aget_type attr]
    in is_valid lib tr1 attr \<and>
       obs lib tr2 (H5Sget_simple_extent_ndims space) = 0 \<and>
       0 < obs lib tr3 (H5Tequal stored_ty (ty v)) \<and>
       0 \<le> ret lib tr3 (H5Aread attr (ty v) (start v)) \<longrightarrow>
       read_attribute lib obj name v tr = (Inr (), tr3 @ [H5Aread attr (ty v) (start v)]))"
  by (simp add: read_attribute_def call_def Let_def)

lemma read_attribute_cases:
  "read_attribute lib obj name v tr =
   (let attr = ret lib tr (H5Aopen obj name H5P_DEFAULT);
        tr1 = tr @ [H5Aopen obj name H5P_DEFAULT];
        space = ret lib tr1 (H5Aget_space attr);
        tr2 = tr1 @ [H5Aget_space attr];
        stored_ty = ret lib tr2 (H5Aget_type attr);
        tr3 = tr2 @ [H5Aget_type attr]
    in if \<not> is_valid lib tr1 attr then
         (Inl (Runtime_error (''Cannot open the attribute '' @ name)), tr1)
       else if obs lib tr2 (H5Sget_simple_extent_ndims space) \<noteq> 0 then
         (Inl (Runtime_error ''Reading a scalar attribute and got rank !=0''), tr2)
       else if obs lib tr3 (H5Tequal stored_ty (ty v)) < 0 then
         (Inl (Runtime_error ''Type comparison failure in reading attribute''), tr3)
       else if obs lib tr3 (H5Tequal stored_ty (ty v)) = 0 then
         (Inl (Runtime_error ''Type mismatch in reading attribute''), tr3)
       else if ret lib tr3 (H5Aread attr (ty v) (start v)) < 0 then
         (Inl (Runtime_error (''Cannot read the attribute '' @ name)),
          tr3 @ [H5Aread attr (ty v) (start v)])
       else (Inr (), tr3 @ [H5Aread attr (ty v) (start v)]))"
  by (simp add: read_attribute_def call_def Let_def)

lemma read_attribute_succeeds_iff:
  "fst (read_attribute lib obj name v tr) = Inr () \<longleftrightarrow>
   (let attr = ret lib tr (H5Aopen obj name H5P_DEFAULT);
        tr1 = tr @ [H5Aopen obj name H5P_DEFAULT];
        space = ret lib tr1 (H5Aget_space attr);
        tr2 = tr1 @ [H5Aget_space attr];
        stored_ty = ret lib tr2 (H5Aget_type attr);
        tr3 = tr2 @ [H5Aget_type attr]
    in is_valid lib tr1 attr \<and>
       obs lib tr2 (H5Sget_simple_extent_ndims space) = 0 \<and>
       0 < obs lib tr3 (H5Tequal stored_ty (ty v)) \<and>
       0 \<le> ret lib tr3 (H5Aread attr (ty v) (start v)))"
  by (auto simp: read_attribute_cases Let_def)

lemma read_attribute_transfers:
  "transfers (snd (read_attribute lib obj name v tr)) =
   transfers tr @
   (let attr = ret lib tr (H5Aopen obj name H5P_DEFAULT);
        tr1 = tr @ [H5Aopen obj name H5P_DEFAULT];
        space = ret lib tr1 (H5Aget_space attr);
        tr2 = tr1 @ [H5Aget_space attr];
        stored_ty = ret lib tr2 (H5Aget_type attr);
        tr3 = tr2 @ [H5Aget_type attr]
    in if is_valid lib tr1 attr \<and>
          obs lib tr2 (H5Sget_simple_extent_ndims space) = 0 \<and>
          0 < obs lib tr3 (H5Tequal stored_ty (ty v))
       then [H5Aread attr (ty v) (start v)] else [])"
  by (auto simp: read_attribute_cases Let_def transfers_def)

subsection \<open>Claims on the dataspace builder and the transfers\<close>

text \<open>
  C4.  On a view of rank 0, \<open>make_mem_dspace\<close> makes one call, the creation of a scalar
  dataspace, returns its handle and applies no selection; a scalar dataspace has exactly one
  point.  On a view of another rank it creates a simple dataspace with the rank of the
  hyperslab and the extents \<open>L_tot\<close> of the view and then selects, on that dataspace, the
  hyperslab with the offset, stride and count vectors of the view, passing no block when the
  block vector is empty and the block vector otherwise; it fails with \<open>Cannot create the
  dataset\<close> when the created handle is not valid and with \<open>Cannot set hyperslab\<close> when the
  selection reports an error, and returns the dataspace otherwise.
\<close>

theorem make_mem_dspace_builds_view_dataspace:
  "(view_rank v = 0 \<longrightarrow>
      make_mem_dspace lib v tr = (Inr (ret lib tr H5Screate_SCALAR), tr @ [H5Screate_SCALAR]) \<and>
      (is_valid lib (tr @ [H5Screate_SCALAR]) (ret lib tr H5Screate_SCALAR) \<longrightarrow>
         dataspaces lib (tr @ [H5Screate_SCALAR]) (ret lib tr H5Screate_SCALAR) = Some Scalar_space) \<and>
      extent_npoints Scalar_space = 1) \<and>
   (view_rank v \<noteq> 0 \<longrightarrow>
      (let create = H5Screate_simple (view_rank v) (L_tot v);
           ds = ret lib tr create;
           tr1 = tr @ [create];
           select = H5Sselect_hyperslab_SET ds (offset (slab v)) (stride (slab v)) (count (slab v))
                      (if block (slab v) = [] then None else Some (block (slab v)))
       in make_mem_dspace lib v tr =
            (if \<not> is_valid lib tr1 ds then (Inl (Runtime_error ''Cannot create the dataset''), tr1)
             else if ret lib tr1 select < 0
               then (Inl (Runtime_error ''Cannot set hyperslab''), tr1 @ [select])
             else (Inr ds, tr1 @ [select])) \<and>
          (is_valid lib tr1 ds \<and> 0 \<le> ret lib tr1 select \<longrightarrow>
             dataspaces lib (tr1 @ [select]) ds =
               Some (Simple_space (L_tot v)
                 (Select_hyperslab (offset (slab v)) (stride (slab v)) (count (slab v))
                   (if block (slab v) = [] then None else Some (block (slab v))))))))"
proof (intro conjI impI)
  assume r: "view_rank v = 0"
  then show "make_mem_dspace lib v tr =
      (Inr (ret lib tr H5Screate_SCALAR), tr @ [H5Screate_SCALAR])"
    by (rule make_mem_dspace_scalar)
  then show "dataspaces lib (tr @ [H5Screate_SCALAR]) (ret lib tr H5Screate_SCALAR) = Some Scalar_space"
    if "is_valid lib (tr @ [H5Screate_SCALAR]) (ret lib tr H5Screate_SCALAR)"
    using make_mem_dspace_denotes(2) r that by blast
  show "extent_npoints Scalar_space = 1" by simp
next
  assume r: "view_rank v \<noteq> 0"
  let ?create = "H5Screate_simple (view_rank v) (L_tot v)"
  let ?ds = "ret lib tr ?create"
  let ?tr1 = "tr @ [?create]"
  let ?select = "H5Sselect_hyperslab_SET ?ds (offset (slab v)) (stride (slab v)) (count (slab v))
                      (if block (slab v) = [] then None else Some (block (slab v)))"
  have run: "make_mem_dspace lib v tr =
            (if \<not> is_valid lib ?tr1 ?ds then (Inl (Runtime_error ''Cannot create the dataset''), ?tr1)
             else if ret lib ?tr1 ?select < 0
               then (Inl (Runtime_error ''Cannot set hyperslab''), ?tr1 @ [?select])
             else (Inr ?ds, ?tr1 @ [?select]))"
    using make_mem_dspace_simple [OF r, of lib tr] by (simp add: Let_def)
  have den: "dataspaces lib (?tr1 @ [?select]) ?ds =
               Some (Simple_space (L_tot v)
                 (Select_hyperslab (offset (slab v)) (stride (slab v)) (count (slab v))
                   (if block (slab v) = [] then None else Some (block (slab v)))))"
    if ok: "is_valid lib ?tr1 ?ds \<and> 0 \<le> ret lib ?tr1 ?select"
  proof -
    have "make_mem_dspace lib v tr = (Inr ?ds, ?tr1 @ [?select])"
      using run ok by simp
    then show ?thesis using make_mem_dspace_denotes(1) r by blast
  qed
  show "let create = H5Screate_simple (view_rank v) (L_tot v);
           ds = ret lib tr create;
           tr1 = tr @ [create];
           select = H5Sselect_hyperslab_SET ds (offset (slab v)) (stride (slab v)) (count (slab v))
                      (if block (slab v) = [] then None else Some (block (slab v)))
       in make_mem_dspace lib v tr =
            (if \<not> is_valid lib tr1 ds then (Inl (Runtime_error ''Cannot create the dataset''), tr1)
             else if ret lib tr1 select < 0
               then (Inl (Runtime_error ''Cannot set hyperslab''), tr1 @ [select])
             else (Inr ds, tr1 @ [select])) \<and>
          (is_valid lib tr1 ds \<and> 0 \<le> ret lib tr1 select \<longrightarrow>
             dataspaces lib (tr1 @ [select]) ds =
               Some (Simple_space (L_tot v)
                 (Select_hyperslab (offset (slab v)) (stride (slab v)) (count (slab v))
                   (if block (slab v) = [] then None else Some (block (slab v))))))"
    unfolding Let_def using run den by blast
qed

theorem make_mem_dspace_builds_view_dataspace_witness:
  "make_mem_dspace example_lib example_view [] =
     (Inr 1, [H5Screate_simple 2 [2, 3], H5Sselect_hyperslab_SET 1 [0, 0] [1, 1] [2, 3] None]) \<and>
   dataspaces example_lib
     [H5Screate_simple 2 [2, 3], H5Sselect_hyperslab_SET 1 [0, 0] [1, 1] [2, 3] None] 1 =
     Some (Simple_space [2, 3] (Select_hyperslab [0, 0] [1, 1] [2, 3] None)) \<and>
   make_mem_dspace example_lib (example_view\<lparr>slab := \<lparr>offset = [], stride = [], count = [], block = []\<rparr>\<rparr>) [] =
     (Inr 1, [H5Screate_SCALAR])"
  using make_mem_dspace_builds_view_dataspace [of example_view example_lib "[]"]
    make_mem_dspace_builds_view_dataspace
      [of "example_view\<lparr>slab := \<lparr>offset = [], stride = [], count = [], block = []\<rparr>\<rparr>" example_lib "[]"]
  by (simp add: example_lib_def example_view_def view_rank_def slab_rank_def Let_def)

text \<open>
  C5.  On dataset read, once the dataset is open: if the type class of the view's type
  differs from the class of the stored type, \<open>read\<close> fails with an error whose message names
  both types, after the events of opening the dataset and taking its dataspace only.  If the
  classes agree and the exact types differ, the only effect is a warning on \<open>std::cerr\<close>
  naming both types; the outcome of the checks is that of the rank and lengths checks alone,
  and when these pass, the memory dataspace is built and the file dataspace has points, the
  data is read with the view's type and the call succeeds if the read does.
\<close>

theorem read_type_mismatch_policy:
  assumes "thrown lib tr (Group_open_dataset g name) = None"
  shows
    "(let ds = ret lib tr (Group_open_dataset g name);
          tr1 = tr @ [Group_open_dataset g name];
          file_dspace = ret lib tr1 (H5Dget_space ds);
          tr2 = tr1 @ [H5Dget_space ds];
          warning = Cerr (''WARNING: Mismatching types in h5_read. Expecting a '' @
                      get_name_of_h5_type lib tr2 (ty v) @
                      '' while the array stored in the hdf5 file has type '' @
                      get_name_of_h5_type lib tr2 (ty_lt lt) @ [CHR 0x0A])
      in (obs lib tr2 (H5Tget_class (ty v)) \<noteq> obs lib tr2 (H5Tget_class (ty_lt lt)) \<longrightarrow>
            read lib g name v lt tr =
              (Inl (Runtime_error (''Incompatible types in h5_read. Expecting a '' @
                      get_name_of_h5_type lib tr2 (ty v) @
                      '' while the array stored in the hdf5 file has type '' @
                      get_name_of_h5_type lib tr2 (ty_lt lt))), tr2)) \<and>
         (obs lib tr2 (H5Tget_class (ty v)) = obs lib tr2 (H5Tget_class (ty_lt lt)) \<and>
          obs lib tr2 (Hdf5_type_equal (ty v) (ty_lt lt)) = 0 \<longrightarrow>
            read_checks lib g name v lt tr =
              (if lt_rank lt \<noteq> view_rank v then Inl (Runtime_error (rank_mismatch_message v lt))
               else if lengths lt \<noteq> count (slab v)
                 then Inl (Runtime_error ''h5 read. Lengths mismatch'')
               else Inr (ds, file_dspace),
               tr2 @ [warning]) \<and>
            (\<forall>m tr4.
               lt_rank lt = view_rank v \<and> lengths lt = count (slab v) \<and>
               make_mem_dspace lib v (tr2 @ [warning]) = (Inr m, tr4) \<and>
               0 < obs lib tr4 (H5Sget_simple_extent_npoints file_dspace) \<and>
               0 \<le> ret lib tr4 (H5Dread ds (ty v) m file_dspace H5P_DEFAULT (start v)) \<longrightarrow>
               read lib g name v lt tr =
                 (Inr (), tr4 @ [H5Dread ds (ty v) m file_dspace H5P_DEFAULT (start v)]))))"
proof -
  let ?ds = "ret lib tr (Group_open_dataset g name)"
  let ?tr1 = "tr @ [Group_open_dataset g name]"
  let ?fd = "ret lib ?tr1 (H5Dget_space ?ds)"
  let ?tr2 = "?tr1 @ [H5Dget_space ?ds]"
  let ?w = "Cerr (''WARNING: Mismatching types in h5_read. Expecting a '' @
                      get_name_of_h5_type lib ?tr2 (ty v) @
                      '' while the array stored in the hdf5 file has type '' @
                      get_name_of_h5_type lib ?tr2 (ty_lt lt) @ [CHR 0x0A])"
  note rc = read_checks_open_ok [OF assms, of v lt, unfolded Let_def]
  have a: "read lib g name v lt tr =
              (Inl (Runtime_error (''Incompatible types in h5_read. Expecting a '' @
                      get_name_of_h5_type lib ?tr2 (ty v) @
                      '' while the array stored in the hdf5 file has type '' @
                      get_name_of_h5_type lib ?tr2 (ty_lt lt))), ?tr2)"
    if "obs lib ?tr2 (H5Tget_class (ty v)) \<noteq> obs lib ?tr2 (H5Tget_class (ty_lt lt))"
    using rc that by (simp add: read_def incompatible_types_message_def)
  have b: "read_checks lib g name v lt tr =
              (if lt_rank lt \<noteq> view_rank v then Inl (Runtime_error (rank_mismatch_message v lt))
               else if lengths lt \<noteq> count (slab v)
                 then Inl (Runtime_error ''h5 read. Lengths mismatch'')
               else Inr (?ds, ?fd),
               ?tr2 @ [?w])"
    if "obs lib ?tr2 (H5Tget_class (ty v)) = obs lib ?tr2 (H5Tget_class (ty_lt lt)) \<and>
        obs lib ?tr2 (Hdf5_type_equal (ty v) (ty_lt lt)) = 0"
    using rc that by (simp add: mismatching_types_warning_def)
  have c: "read lib g name v lt tr =
                 (Inr (), tr4 @ [H5Dread ?ds (ty v) m ?fd H5P_DEFAULT (start v)])"
    if cls: "obs lib ?tr2 (H5Tget_class (ty v)) = obs lib ?tr2 (H5Tget_class (ty_lt lt)) \<and>
        obs lib ?tr2 (Hdf5_type_equal (ty v) (ty_lt lt)) = 0"
      and rest: "lt_rank lt = view_rank v \<and> lengths lt = count (slab v) \<and>
               make_mem_dspace lib v (?tr2 @ [?w]) = (Inr m, tr4) \<and>
               0 < obs lib tr4 (H5Sget_simple_extent_npoints ?fd) \<and>
               0 \<le> ret lib tr4 (H5Dread ?ds (ty v) m ?fd H5P_DEFAULT (start v))"
    for m tr4
  proof -
    have "read_checks lib g name v lt tr = (Inr (?ds, ?fd), ?tr2 @ [?w])"
      using b [OF cls] rest by simp
    moreover have "make_mem_dspace lib v (?tr2 @ [?w]) = (Inr m, tr4)" using rest by simp
    ultimately have "read lib g name v lt tr = read_transfer lib g name ?ds ?fd v m tr4"
      by (rule read_reaches_transfer)
    then show ?thesis using rest by (simp add: read_transfer_def call_def)
  qed
  show ?thesis unfolding Let_def using a b c by blast
qed

theorem read_type_mismatch_policy_witness:
  "read example_lib 7 ''A'' example_view example_lengths [] =
     (Inr (),
      [Group_open_dataset 7 ''A'', H5Dget_space 1,
       Cerr (''WARNING: Mismatching types in h5_read. Expecting a int'' @
             '' while the array stored in the hdf5 file has type long'' @ [CHR 0x0A]),
       H5Screate_simple 2 [2, 3],
       H5Sselect_hyperslab_SET 4 [0, 0] [1, 1] [2, 3] None,
       H5Dread 1 10 4 2 H5P_DEFAULT 4096]) \<and>
   read example_lib 7 ''A'' example_view (example_lengths\<lparr>ty_lt := 20\<rparr>) [] =
     (Inl (Runtime_error (''Incompatible types in h5_read. Expecting a int'' @
             '' while the array stored in the hdf5 file has type double'')),
      [Group_open_dataset 7 ''A'', H5Dget_space 1])"
proof -
  have t: "thrown example_lib [] (Group_open_dataset 7 ''A'') = None"
    by (simp add: example_lib_def)
  have m: "make_mem_dspace example_lib example_view
        [Group_open_dataset 7 ''A'', H5Dget_space 1,
         Cerr (''WARNING: Mismatching types in h5_read. Expecting a int'' @
             '' while the array stored in the hdf5 file has type long'' @ [CHR 0x0A])] =
       (Inr 4, [Group_open_dataset 7 ''A'', H5Dget_space 1,
         Cerr (''WARNING: Mismatching types in h5_read. Expecting a int'' @
             '' while the array stored in the hdf5 file has type long'' @ [CHR 0x0A]),
         H5Screate_simple 2 [2, 3],
         H5Sselect_hyperslab_SET 4 [0, 0] [1, 1] [2, 3] None])"
    by (simp add: make_mem_dspace_def call_def example_lib_def example_view_def view_rank_def
        slab_rank_def)
  show ?thesis
    using read_type_mismatch_policy [OF t, of example_view example_lengths]
      read_type_mismatch_policy [OF t, of example_view "example_lengths\<lparr>ty_lt := 20\<rparr>"] m
    by (simp add: Let_def example_lib_def example_view_def example_lengths_def lt_rank_def
        view_rank_def slab_rank_def)
qed

text \<open>
  C6.  On dataset read, when the rank of the stored metadata differs from the rank of the
  view, or the stored lengths differ from the count vector of the view's hyperslab, \<open>read\<close>
  fails, and no data transfer has been issued: the transfers among the events are those from
  before the call.  When the dataset is open and the type classes agree, the failure is the
  rank mismatch error if the ranks differ and the lengths mismatch error otherwise.
\<close>

theorem read_rejects_rank_and_lengths_mismatch:
  assumes "lt_rank lt \<noteq> view_rank v \<or> lengths lt \<noteq> count (slab v)"
  shows "(\<exists>e. fst (read lib g name v lt tr) = Inl e) \<and>
         transfers (snd (read lib g name v lt tr)) = transfers tr \<and>
         (thrown lib tr (Group_open_dataset g name) = None \<and>
          (let ds = ret lib tr (Group_open_dataset g name);
               tr2 = tr @ [Group_open_dataset g name, H5Dget_space ds]
           in obs lib tr2 (H5Tget_class (ty v)) = obs lib tr2 (H5Tget_class (ty_lt lt))) \<longrightarrow>
          fst (read lib g name v lt tr) =
            Inl (Runtime_error (if lt_rank lt \<noteq> view_rank v then rank_mismatch_message v lt
                                else ''h5 read. Lengths mismatch'')))"
proof (intro conjI impI)
  show "\<exists>e. fst (read lib g name v lt tr) = Inl e"
    using read_mismatch_fails [OF assms] by blast
  show "transfers (snd (read lib g name v lt tr)) = transfers tr"
    using read_mismatch_fails [OF assms] by blast
next
  assume h: "thrown lib tr (Group_open_dataset g name) = None \<and>
          (let ds = ret lib tr (Group_open_dataset g name);
               tr2 = tr @ [Group_open_dataset g name, H5Dget_space ds]
           in obs lib tr2 (H5Tget_class (ty v)) = obs lib tr2 (H5Tget_class (ty_lt lt)))"
  then have t: "thrown lib tr (Group_open_dataset g name) = None" by simp
  obtain r tr3 where c: "read_checks lib g name v lt tr = (r, tr3)"
    by (cases "read_checks lib g name v lt tr")
  have "r = Inl (Runtime_error (if lt_rank lt \<noteq> view_rank v then rank_mismatch_message v lt
                                else ''h5 read. Lengths mismatch''))"
    using read_checks_open_ok [OF t, of v lt] c h assms by (auto simp: Let_def)
  then show "fst (read lib g name v lt tr) =
            Inl (Runtime_error (if lt_rank lt \<noteq> view_rank v then rank_mismatch_message v lt
                                else ''h5 read. Lengths mismatch''))"
    using c read_checks_fail [of lib g name v lt tr _ tr3] by simp
qed

theorem read_rejects_rank_and_lengths_mismatch_witness:
  "fst (read example_lib 7 ''A'' example_view (example_lengths\<lparr>lengths := [6]\<rparr>) []) =
     Inl (Runtime_error (''h5 read. Rank mismatch : expecting in file a rank 2'' @
            '' while the array stored in the hdf5 file has rank 1'')) \<and>
   transfers (snd (read example_lib 7 ''A'' example_view (example_lengths\<lparr>lengths := [6]\<rparr>) [])) = [] \<and>
   fst (read example_lib 7 ''A'' example_view (example_lengths\<lparr>lengths := [3, 2]\<rparr>) []) =
     Inl (Runtime_error ''h5 read. Lengths mismatch'')"
proof -
  have a: "lt_rank (example_lengths\<lparr>lengths := [6]\<rparr>) \<noteq> view_rank example_view \<or>
           lengths (example_lengths\<lparr>lengths := [6]\<rparr>) \<noteq> count (slab example_view)"
    by (simp add: example_lengths_def example_view_def)
  have b: "lt_rank (example_lengths\<lparr>lengths := [3, 2]\<rparr>) \<noteq> view_rank example_view \<or>
           lengths (example_lengths\<lparr>lengths := [3, 2]\<rparr>) \<noteq> count (slab example_view)"
    by (simp add: example_lengths_def example_view_def)
  show ?thesis
    using read_rejects_rank_and_lengths_mismatch [OF a, of example_lib 7 "''A''" "[]"]
      read_rejects_rank_and_lengths_mismatch [OF b, of example_lib 7 "''A''" "[]"]
    by (simp add: Let_def example_lib_def example_view_def example_lengths_def lt_rank_def
        view_rank_def slab_rank_def rank_mismatch_message_def to_string_def string_of_nat.simps
        transfers_def)
qed

text \<open>
  C7.  \<open>write\<close> issues its data transfer exactly when the dataset has been created, the
  memory dataspace has been built from the view and that memory dataspace has more than zero
  points; with zero points the dataset has still been created, no transfer is issued, only the
  marker attribute may follow, and the call succeeds unless writing that marker throws.
  \<open>read\<close> issues its data transfer exactly when the checks have passed, the memory dataspace
  has been built and the file dataspace has more than zero points; with zero points the call
  succeeds without a transfer.  The point count is that of the memory dataspace in \<open>write\<close>
  and that of the file dataspace in \<open>read\<close>.
\<close>

theorem transfer_iff_dataspace_has_points:
  "((create_dataset lib g name v compress tr = (Inr ds, tr4) \<and>
     make_mem_dspace lib v tr4 = (Inr m, tr5)) \<longrightarrow>
      transfers (snd (write_dataset lib g name v compress tr)) =
        transfers tr @ (if 0 < obs lib tr5 (H5Sget_simple_extent_npoints m)
                        then [H5Dwrite ds (ty v) m H5S_ALL H5P_DEFAULT (start v)] else []) \<and>
      (\<not> 0 < obs lib tr5 (H5Sget_simple_extent_npoints m) \<longrightarrow>
         write_dataset lib g name v compress tr = write_complex_marker lib ds v tr5 \<and>
         (\<exists>past file_dspace cparms.
            tr4 = past @ [H5Dcreate2 g name (ty v) file_dspace H5P_DEFAULT cparms H5P_DEFAULT]) \<and>
         ((is_complex v \<longrightarrow> thrown lib tr5 (H5_write_attribute ds ''__complex__'' ''1'') = None) \<longrightarrow>
            fst (write_dataset lib g name v compress tr) = Inr ()))) \<and>
   (transfers (snd (write_dataset lib g name v compress tr)) \<noteq> transfers tr \<longleftrightarrow>
      (\<exists>ds tr4 m tr5.
         create_dataset lib g name v compress tr = (Inr ds, tr4) \<and>
         make_mem_dspace lib v tr4 = (Inr m, tr5) \<and>
         0 < obs lib tr5 (H5Sget_simple_extent_npoints m))) \<and>
   ((read_checks lib g name v lt tr = (Inr (rds, file_dspace), rtr3) \<and>
     make_mem_dspace lib v rtr3 = (Inr rm, rtr4)) \<longrightarrow>
      transfers (snd (read lib g name v lt tr)) =
        transfers tr @ (if 0 < obs lib rtr4 (H5Sget_simple_extent_npoints file_dspace)
                        then [H5Dread rds (ty v) rm file_dspace H5P_DEFAULT (start v)] else []) \<and>
      (\<not> 0 < obs lib rtr4 (H5Sget_simple_extent_npoints file_dspace) \<longrightarrow>
         read lib g name v lt tr = (Inr (), rtr4))) \<and>
   (transfers (snd (read lib g name v lt tr)) \<noteq> transfers tr \<longleftrightarrow>
      (\<exists>ds file_dspace tr3 m tr4.
         read_checks lib g name v lt tr = (Inr (ds, file_dspace), tr3) \<and>
         make_mem_dspace lib v tr3 = (Inr m, tr4) \<and>
         0 < obs lib tr4 (H5Sget_simple_extent_npoints file_dspace)))"
proof (intro conjI)
  show "(create_dataset lib g name v compress tr = (Inr ds, tr4) \<and>
     make_mem_dspace lib v tr4 = (Inr m, tr5)) \<longrightarrow>
      transfers (snd (write_dataset lib g name v compress tr)) =
        transfers tr @ (if 0 < obs lib tr5 (H5Sget_simple_extent_npoints m)
                        then [H5Dwrite ds (ty v) m H5S_ALL H5P_DEFAULT (start v)] else []) \<and>
      (\<not> 0 < obs lib tr5 (H5Sget_simple_extent_npoints m) \<longrightarrow>
         write_dataset lib g name v compress tr = write_complex_marker lib ds v tr5 \<and>
         (\<exists>past file_dspace cparms.
            tr4 = past @ [H5Dcreate2 g name (ty v) file_dspace H5P_DEFAULT cparms H5P_DEFAULT]) \<and>
         ((is_complex v \<longrightarrow> thrown lib tr5 (H5_write_attribute ds ''__complex__'' ''1'') = None) \<longrightarrow>
            fst (write_dataset lib g name v compress tr) = Inr ()))"
  proof (intro impI conjI)
    assume h: "create_dataset lib g name v compress tr = (Inr ds, tr4) \<and>
      make_mem_dspace lib v tr4 = (Inr m, tr5)"
    then have c: "create_dataset lib g name v compress tr = (Inr ds, tr4)"
      and md: "make_mem_dspace lib v tr4 = (Inr m, tr5)" by simp_all
    show "transfers (snd (write_dataset lib g name v compress tr)) =
        transfers tr @ (if 0 < obs lib tr5 (H5Sget_simple_extent_npoints m)
                        then [H5Dwrite ds (ty v) m H5S_ALL H5P_DEFAULT (start v)] else [])"
      using c md by (rule write_dataset_transfers_reached)
    assume z: "\<not> 0 < obs lib tr5 (H5Sget_simple_extent_npoints m)"
    show w: "write_dataset lib g name v compress tr = write_complex_marker lib ds v tr5"
      using write_dataset_reaches_transfer [OF c md] write_transfer_skipped [OF z, of g name ds v]
      by simp
    show "\<exists>past file_dspace cparms.
            tr4 = past @ [H5Dcreate2 g name (ty v) file_dspace H5P_DEFAULT cparms H5P_DEFAULT]"
      using create_dataset_created [OF c] by blast
    assume "is_complex v \<longrightarrow> thrown lib tr5 (H5_write_attribute ds ''__complex__'' ''1'') = None"
    then show "fst (write_dataset lib g name v compress tr) = Inr ()"
      unfolding w by (auto simp: write_complex_marker_result)
  qed
next
  show "transfers (snd (write_dataset lib g name v compress tr)) \<noteq> transfers tr \<longleftrightarrow>
      (\<exists>ds tr4 m tr5.
         create_dataset lib g name v compress tr = (Inr ds, tr4) \<and>
         make_mem_dspace lib v tr4 = (Inr m, tr5) \<and>
         0 < obs lib tr5 (H5Sget_simple_extent_npoints m))"
  proof (cases "\<exists>ds tr4 m tr5. create_dataset lib g name v compress tr = (Inr ds, tr4) \<and>
              make_mem_dspace lib v tr4 = (Inr m, tr5)")
    case True
    then obtain ds tr4 m tr5 where c: "create_dataset lib g name v compress tr = (Inr ds, tr4)"
      and md: "make_mem_dspace lib v tr4 = (Inr m, tr5)" by blast
    show ?thesis
      using write_dataset_transfers_reached [OF c md] c md by auto
  next
    case False
    then show ?thesis using write_dataset_transfers_not_reached [OF False] by blast
  qed
next
  show "(read_checks lib g name v lt tr = (Inr (rds, file_dspace), rtr3) \<and>
     make_mem_dspace lib v rtr3 = (Inr rm, rtr4)) \<longrightarrow>
      transfers (snd (read lib g name v lt tr)) =
        transfers tr @ (if 0 < obs lib rtr4 (H5Sget_simple_extent_npoints file_dspace)
                        then [H5Dread rds (ty v) rm file_dspace H5P_DEFAULT (start v)] else []) \<and>
      (\<not> 0 < obs lib rtr4 (H5Sget_simple_extent_npoints file_dspace) \<longrightarrow>
         read lib g name v lt tr = (Inr (), rtr4))"
  proof (intro impI conjI)
    assume h: "read_checks lib g name v lt tr = (Inr (rds, file_dspace), rtr3) \<and>
     make_mem_dspace lib v rtr3 = (Inr rm, rtr4)"
    then have c: "read_checks lib g name v lt tr = (Inr (rds, file_dspace), rtr3)"
      and md: "make_mem_dspace lib v rtr3 = (Inr rm, rtr4)" by simp_all
    show "transfers (snd (read lib g name v lt tr)) =
        transfers tr @ (if 0 < obs lib rtr4 (H5Sget_simple_extent_npoints file_dspace)
                        then [H5Dread rds (ty v) rm file_dspace H5P_DEFAULT (start v)] else [])"
      using c md by (rule read_transfers_reached)
    assume "\<not> 0 < obs lib rtr4 (H5Sget_simple_extent_npoints file_dspace)"
    then show "read lib g name v lt tr = (Inr (), rtr4)"
      using read_reaches_transfer [OF c md] by (simp add: read_transfer_def)
  qed
next
  show "transfers (snd (read lib g name v lt tr)) \<noteq> transfers tr \<longleftrightarrow>
      (\<exists>ds file_dspace tr3 m tr4.
         read_checks lib g name v lt tr = (Inr (ds, file_dspace), tr3) \<and>
         make_mem_dspace lib v tr3 = (Inr m, tr4) \<and>
         0 < obs lib tr4 (H5Sget_simple_extent_npoints file_dspace))"
  proof (cases "\<exists>ds file_dspace tr3 m tr4. read_checks lib g name v lt tr = (Inr (ds, file_dspace), tr3) \<and>
              make_mem_dspace lib v tr3 = (Inr m, tr4)")
    case True
    then obtain ds file_dspace tr3 m tr4
      where c: "read_checks lib g name v lt tr = (Inr (ds, file_dspace), tr3)"
      and md: "make_mem_dspace lib v tr3 = (Inr m, tr4)" by blast
    show ?thesis
      using read_transfers_reached [OF c md] c md by auto
  next
    case False
    then show ?thesis using read_transfers_not_reached [OF False] by blast
  qed
qed

theorem transfer_iff_dataspace_has_points_witness:
  "transfers (snd (write_dataset example_lib 7 ''A'' example_view True [])) =
     [H5Dwrite 6 10 7 H5S_ALL H5P_DEFAULT 4096] \<and>
   transfers (snd (write_dataset (example_lib\<lparr>obs := \<lambda>tr q. 0\<rparr>) 7 ''A'' example_view True [])) = [] \<and>
   fst (write_dataset (example_lib\<lparr>obs := \<lambda>tr q. 0\<rparr>) 7 ''A'' example_view True []) = Inr () \<and>
   transfers (snd (read example_lib 7 ''A'' example_view example_lengths [])) =
     [H5Dread 1 10 4 2 H5P_DEFAULT 4096] \<and>
   read (example_lib\<lparr>obs := \<lambda>tr q. 0\<rparr>) 7 ''A'' example_view example_lengths [] =
     (Inr (),
      [Group_open_dataset 7 ''A'', H5Dget_space 1,
       Cerr (''WARNING: Mismatching types in h5_read. Expecting a int'' @
             '' while the array stored in the hdf5 file has type long'' @ [CHR 0x0A]),
       H5Screate_simple 2 [2, 3],
       H5Sselect_hyperslab_SET 4 [0, 0] [1, 1] [2, 3] None])"
proof -
  let ?zero = "example_lib\<lparr>obs := \<lambda>tr q. 0\<rparr>"
  let ?tr4 = "[Group_unlink 7 ''A'', H5Pcreate_DATASET_CREATE, H5Pset_chunk 2 2 [2, 3],
       H5Pset_deflate 2 1, H5Screate_simple 2 [2, 3],
       H5Dcreate2 7 ''A'' 10 5 H5P_DEFAULT 2 H5P_DEFAULT]"
  let ?tr5 = "?tr4 @ [H5Screate_simple 2 [2, 3], H5Sselect_hyperslab_SET 7 [0, 0] [1, 1] [2, 3] None]"
  let ?w = "Cerr (''WARNING: Mismatching types in h5_read. Expecting a int'' @
             '' while the array stored in the hdf5 file has type long'' @ [CHR 0x0A])"
  let ?rtr3 = "[Group_open_dataset 7 ''A'', H5Dget_space 1, ?w]"
  let ?rtr4 = "?rtr3 @ [H5Screate_simple 2 [2, 3], H5Sselect_hyperslab_SET 4 [0, 0] [1, 1] [2, 3] None]"
  have c: "create_dataset example_lib 7 ''A'' example_view True [] = (Inr 6, ?tr4)"
    "create_dataset ?zero 7 ''A'' example_view True [] = (Inr 6, ?tr4)"
    by (simp_all add: create_dataset_def dataset_creation_properties_def call_throwing_def call_def
        example_lib_def example_view_def view_rank_def slab_rank_def H5P_DEFAULT_def upt_rec)
  have m: "make_mem_dspace example_lib example_view ?tr4 = (Inr 7, ?tr5)"
    "make_mem_dspace ?zero example_view ?tr4 = (Inr 7, ?tr5)"
    by (simp_all add: make_mem_dspace_def call_def example_lib_def example_view_def view_rank_def
        slab_rank_def)
  have rc: "read_checks example_lib 7 ''A'' example_view example_lengths [] = (Inr (1, 2), ?rtr3)"
    "read_checks ?zero 7 ''A'' example_view example_lengths [] = (Inr (1, 2), ?rtr3)"
    by (simp_all add: read_checks_def call_throwing_def call_def example_lib_def example_view_def
        example_lengths_def view_rank_def slab_rank_def lt_rank_def mismatching_types_warning_def)
  have rm: "make_mem_dspace example_lib example_view ?rtr3 = (Inr 4, ?rtr4)"
    "make_mem_dspace ?zero example_view ?rtr3 = (Inr 4, ?rtr4)"
    by (simp_all add: make_mem_dspace_def call_def example_lib_def example_view_def view_rank_def
        slab_rank_def)
  note pos = transfer_iff_dataspace_has_points
    [where lib = example_lib and g = 7 and name = "''A''" and v = example_view
       and compress = True and tr = "[]" and ds = 6 and ?tr4.0 = ?tr4 and m = 7 and ?tr5.0 = ?tr5
       and lt = example_lengths and rds = 1 and file_dspace = 2 and ?rtr3.0 = ?rtr3 and rm = 4
       and ?rtr4.0 = ?rtr4]
  note zero = transfer_iff_dataspace_has_points
    [where lib = ?zero and g = 7 and name = "''A''" and v = example_view
       and compress = True and tr = "[]" and ds = 6 and ?tr4.0 = ?tr4 and m = 7 and ?tr5.0 = ?tr5
       and lt = example_lengths and rds = 1 and file_dspace = 2 and ?rtr3.0 = ?rtr3 and rm = 4
       and ?rtr4.0 = ?rtr4]
  have p1: "transfers (snd (write_dataset example_lib 7 ''A'' example_view True [])) =
     [H5Dwrite 6 10 7 H5S_ALL H5P_DEFAULT 4096]"
    using pos c(1) m(1) rc(1) rm(1)
    by (simp add: example_lib_def example_view_def transfers_def)
  have p2: "transfers (snd (read example_lib 7 ''A'' example_view example_lengths [])) =
     [H5Dread 1 10 4 2 H5P_DEFAULT 4096]"
    using pos c(1) m(1) rc(1) rm(1)
    by (simp add: example_lib_def example_view_def transfers_def)
  have z: "transfers (snd (write_dataset ?zero 7 ''A'' example_view True [])) = [] \<and>
      fst (write_dataset ?zero 7 ''A'' example_view True []) = Inr () \<and>
      read ?zero 7 ''A'' example_view example_lengths [] = (Inr (), ?rtr4)"
    using zero c(2) m(2) rc(2) rm(2)
    by (simp add: example_lib_def example_view_def transfers_def write_complex_marker_def
        call_throwing_def)
  show ?thesis using p1 p2 z by simp
qed

text \<open>
  C8.  When the attribute-existence probe answers anything but zero, \<open>write_attribute\<close> fails
  with the error \<open>The attribute ... is already present. Can not overwrite\<close> and issues no
  event at all: the probe is the first thing it does, so no dataspace, no attribute and no
  transfer has been requested from the library and the stored attribute is as it was.
  Conversely, a run that issues any event has seen the probe answer zero.
\<close>

theorem write_attribute_no_overwrite:
  "(obs lib tr (H5LTfind_attribute obj name) \<noteq> 0 \<longrightarrow>
      write_attribute lib obj name v tr =
        (Inl (Runtime_error (''The attribute '' @ name @
            '' is already present. Can not overwrite'')), tr)) \<and>
   (snd (write_attribute lib obj name v tr) \<noteq> tr \<longrightarrow>
      obs lib tr (H5LTfind_attribute obj name) = 0)"
  using write_attribute_exists [of lib tr obj name v]
    write_attribute_events_imply_absent [of lib obj name v tr]
  by blast

theorem write_attribute_no_overwrite_witness:
  "write_attribute example_lib 7 ''units'' example_view [] =
     (Inl (Runtime_error ''The attribute units is already present. Can not overwrite''), []) \<and>
   write_attribute example_lib 7 ''scale'' example_view [] =
     (Inr (),
      [H5Screate_simple 2 [2, 3], H5Sselect_hyperslab_SET 1 [0, 0] [1, 1] [2, 3] None,
       H5Acreate2 7 ''scale'' 10 1 H5P_DEFAULT H5P_DEFAULT, H5Awrite 3 10 4096])"
proof (rule conjI)
  show "write_attribute example_lib 7 ''units'' example_view [] =
     (Inl (Runtime_error ''The attribute units is already present. Can not overwrite''), [])"
    using write_attribute_no_overwrite [of example_lib "[]" 7 "''units''" example_view]
    by (simp add: example_lib_def)
  show "write_attribute example_lib 7 ''scale'' example_view [] =
     (Inr (),
      [H5Screate_simple 2 [2, 3], H5Sselect_hyperslab_SET 1 [0, 0] [1, 1] [2, 3] None,
       H5Acreate2 7 ''scale'' 10 1 H5P_DEFAULT H5P_DEFAULT, H5Awrite 3 10 4096])"
    by (simp add: write_attribute_def make_mem_dspace_def call_def example_lib_def
        example_view_def view_rank_def slab_rank_def)
qed

text \<open>
  C9.  When \<open>write\<close> has created the dataset, built the memory dataspace and passed the
  transfer step (the data written, or the transfer skipped for zero points), its events are
  those up to and including the transfer, followed by the one event that writes the attribute
  \<open>__complex__\<close> with the value \<open>1\<close> on the created dataset if \<open>is_complex\<close> is set, and by
  nothing otherwise.  In every run, \<open>write\<close> creates an attribute only in this way: with
  \<open>is_complex\<close> not set it creates none, and if it creates one then \<open>is_complex\<close> is set, the
  transfer step has passed and the marker is the last event.
\<close>

theorem complex_marker_iff_is_complex:
  "((create_dataset lib g name v compress tr = (Inr ds, tr4) \<and>
     make_mem_dspace lib v tr4 = (Inr m, tr5) \<and>
     write_transfer lib g name ds v m tr5 = (Inr (), tr6)) \<longrightarrow>
      tr6 = tr5 @ (if 0 < obs lib tr5 (H5Sget_simple_extent_npoints m)
                   then [H5Dwrite ds (ty v) m H5S_ALL H5P_DEFAULT (start v)] else []) \<and>
      snd (write_dataset lib g name v compress tr) =
        (if is_complex v then tr6 @ [H5_write_attribute ds ''__complex__'' ''1''] else tr6)) \<and>
   (\<not> is_complex v \<longrightarrow>
      attribute_creations (snd (write_dataset lib g name v compress tr)) = attribute_creations tr) \<and>
   (attribute_creations (snd (write_dataset lib g name v compress tr)) \<noteq> attribute_creations tr \<longrightarrow>
      is_complex v \<and>
      (\<exists>ds tr4 m tr5 tr6.
         create_dataset lib g name v compress tr = (Inr ds, tr4) \<and>
         make_mem_dspace lib v tr4 = (Inr m, tr5) \<and>
         write_transfer lib g name ds v m tr5 = (Inr (), tr6) \<and>
         snd (write_dataset lib g name v compress tr) =
           tr6 @ [H5_write_attribute ds ''__complex__'' ''1'']))"
proof (intro conjI impI)
  assume h: "create_dataset lib g name v compress tr = (Inr ds, tr4) \<and>
     make_mem_dspace lib v tr4 = (Inr m, tr5) \<and>
     write_transfer lib g name ds v m tr5 = (Inr (), tr6)"
  then show "tr6 = tr5 @ (if 0 < obs lib tr5 (H5Sget_simple_extent_npoints m)
                   then [H5Dwrite ds (ty v) m H5S_ALL H5P_DEFAULT (start v)] else [])"
    using write_transfer_ok [of lib g name ds v m tr5 "()" tr6] by blast
  from h show "snd (write_dataset lib g name v compress tr) =
        (if is_complex v then tr6 @ [H5_write_attribute ds ''__complex__'' ''1''] else tr6)"
    using write_dataset_marker [of lib g name v compress tr ds tr4 m tr5 tr6] by blast
next
  assume "\<not> is_complex v"
  then show "attribute_creations (snd (write_dataset lib g name v compress tr)) = attribute_creations tr"
    by (rule write_dataset_not_complex)
next
  assume ch: "attribute_creations (snd (write_dataset lib g name v compress tr)) \<noteq>
      attribute_creations tr"
  show "is_complex v"
    using write_dataset_attribute_creations_changed [OF ch] by blast
  show "\<exists>ds tr4 m tr5 tr6.
         create_dataset lib g name v compress tr = (Inr ds, tr4) \<and>
         make_mem_dspace lib v tr4 = (Inr m, tr5) \<and>
         write_transfer lib g name ds v m tr5 = (Inr (), tr6) \<and>
         snd (write_dataset lib g name v compress tr) =
           tr6 @ [H5_write_attribute ds ''__complex__'' ''1'']"
    using write_dataset_attribute_creations_changed [OF ch] by blast
qed

theorem complex_marker_iff_is_complex_witness:
  "snd (write_dataset example_lib 7 ''A'' example_view False []) =
     [Group_unlink 7 ''A'', H5Screate_simple 2 [2, 3],
      H5Dcreate2 7 ''A'' 10 2 H5P_DEFAULT H5P_DEFAULT H5P_DEFAULT,
      H5Screate_simple 2 [2, 3], H5Sselect_hyperslab_SET 4 [0, 0] [1, 1] [2, 3] None,
      H5Dwrite 3 10 4 H5S_ALL H5P_DEFAULT 4096,
      H5_write_attribute 3 ''__complex__'' ''1''] \<and>
   attribute_creations
     (snd (write_dataset example_lib 7 ''A'' (example_view\<lparr>is_complex := False\<rparr>) False [])) = []"
proof -
  let ?tr4 = "[Group_unlink 7 ''A'', H5Screate_simple 2 [2, 3],
      H5Dcreate2 7 ''A'' 10 2 H5P_DEFAULT H5P_DEFAULT H5P_DEFAULT]"
  let ?tr5 = "?tr4 @ [H5Screate_simple 2 [2, 3], H5Sselect_hyperslab_SET 4 [0, 0] [1, 1] [2, 3] None]"
  let ?tr6 = "?tr5 @ [H5Dwrite 3 10 4 H5S_ALL H5P_DEFAULT 4096]"
  have c: "create_dataset example_lib 7 ''A'' example_view False [] = (Inr 3, ?tr4)"
    by (simp add: create_dataset_def dataset_creation_properties_def call_throwing_def call_def
        example_lib_def example_view_def view_rank_def slab_rank_def H5P_DEFAULT_def)
  have m: "make_mem_dspace example_lib example_view ?tr4 = (Inr 4, ?tr5)"
    by (simp add: make_mem_dspace_def call_def example_lib_def example_view_def view_rank_def
        slab_rank_def)
  have w: "write_transfer example_lib 7 ''A'' 3 example_view 4 ?tr5 = (Inr (), ?tr6)"
    by (simp add: write_transfer_def call_def example_lib_def example_view_def)
  have a: "snd (write_dataset example_lib 7 ''A'' example_view False []) =
      ?tr6 @ [H5_write_attribute 3 ''__complex__'' ''1'']"
    using complex_marker_iff_is_complex
      [where lib = example_lib and g = 7 and name = "''A''" and v = example_view
         and compress = False and tr = "[]" and ds = 3 and ?tr4.0 = ?tr4 and m = 4
         and ?tr5.0 = ?tr5 and ?tr6.0 = ?tr6] c m w
    by (simp add: example_view_def)
  have b: "attribute_creations
     (snd (write_dataset example_lib 7 ''A'' (example_view\<lparr>is_complex := False\<rparr>) False [])) = []"
    using complex_marker_iff_is_complex
      [where lib = example_lib and g = 7 and name = "''A''"
         and v = "example_view\<lparr>is_complex := False\<rparr>"
         and compress = False and tr = "[]" and ds = 3 and ?tr4.0 = ?tr4 and m = 4
         and ?tr5.0 = ?tr5 and ?tr6.0 = ?tr6]
    by (simp add: example_view_def attribute_creations_def)
  show ?thesis using a b by simp
qed

text \<open>
  C10.  \<open>read_attribute\<close> does not depend on the rank, the total extents or the hyperslab of
  the caller's view: replacing them changes nothing.  For every view, when the attribute opens
  with a valid handle, its stored dataspace has rank 0, the type comparison of the stored type
  with the view's type is positive and the attribute read reports no error, the call succeeds
  after exactly the four events open, get space, get type and read.  These four conditions are
  also necessary: the call succeeds exactly when they hold.  Otherwise it fails with the error
  of the first check that does not pass: \<open>Cannot open the attribute\<close> for a handle that is
  not valid, \<open>Reading a scalar attribute and got rank !=0\<close> for a stored rank other than 0
  (whatever the rank of the view), \<open>Type comparison failure in reading attribute\<close> for a
  negative and \<open>Type mismatch in reading attribute\<close> for a zero type comparison, and
  \<open>Cannot read the attribute\<close> for a failed read; the read is issued only after the first
  three checks have passed.
\<close>

theorem read_attribute_ignores_view_shape:
  "read_attribute lib obj name (v\<lparr>L_tot := L', slab := s'\<rparr>) tr = read_attribute lib obj name v tr \<and>
   (let attr = ret lib tr (H5Aopen obj name H5P_DEFAULT);
        tr1 = tr @ [H5Aopen obj name H5P_DEFAULT];
        space = ret lib tr1 (H5Aget_space attr);
        tr2 = tr1 @ [H5Aget_space attr];
        stored_ty = ret lib tr2 (H5Aget_type attr);
        tr3 = tr2 @ [H5Aget_type attr]
    in is_valid lib tr1 attr \<and>
       obs lib tr2 (H5Sget_simple_extent_ndims space) = 0 \<and>
       0 < obs lib tr3 (H5Tequal stored_ty (ty v)) \<and>
       0 \<le> ret lib tr3 (H5Aread attr (ty v) (start v)) \<longrightarrow>
       read_attribute lib obj name v tr = (Inr (), tr3 @ [H5Aread attr (ty v) (start v)])) \<and>
   (fst (read_attribute lib obj name v tr) = Inr () \<longleftrightarrow>
    (let attr = ret lib tr (H5Aopen obj name H5P_DEFAULT);
         tr1 = tr @ [H5Aopen obj name H5P_DEFAULT];
         space = ret lib tr1 (H5Aget_space attr);
         tr2 = tr1 @ [H5Aget_space attr];
         stored_ty = ret lib tr2 (H5Aget_type attr);
         tr3 = tr2 @ [H5Aget_type attr]
     in is_valid lib tr1 attr \<and>
        obs lib tr2 (H5Sget_simple_extent_ndims space) = 0 \<and>
        0 < obs lib tr3 (H5Tequal stored_ty (ty v)) \<and>
        0 \<le> ret lib tr3 (H5Aread attr (ty v) (start v)))) \<and>
   read_attribute lib obj name v tr =
   (let attr = ret lib tr (H5Aopen obj name H5P_DEFAULT);
        tr1 = tr @ [H5Aopen obj name H5P_DEFAULT];
        space = ret lib tr1 (H5Aget_space attr);
        tr2 = tr1 @ [H5Aget_space attr];
        stored_ty = ret lib tr2 (H5Aget_type attr);
        tr3 = tr2 @ [H5Aget_type attr]
    in if \<not> is_valid lib tr1 attr then
         (Inl (Runtime_error (''Cannot open the attribute '' @ name)), tr1)
       else if obs lib tr2 (H5Sget_simple_extent_ndims space) \<noteq> 0 then
         (Inl (Runtime_error ''Reading a scalar attribute and got rank !=0''), tr2)
       else if obs lib tr3 (H5Tequal stored_ty (ty v)) < 0 then
         (Inl (Runtime_error ''Type comparison failure in reading attribute''), tr3)
       else if obs lib tr3 (H5Tequal stored_ty (ty v)) = 0 then
         (Inl (Runtime_error ''Type mismatch in reading attribute''), tr3)
       else if ret lib tr3 (H5Aread attr (ty v) (start v)) < 0 then
         (Inl (Runtime_error (''Cannot read the attribute '' @ name)),
          tr3 @ [H5Aread attr (ty v) (start v)])
       else (Inr (), tr3 @ [H5Aread attr (ty v) (start v)])) \<and>
   transfers (snd (read_attribute lib obj name v tr)) =
   transfers tr @
   (let attr = ret lib tr (H5Aopen obj name H5P_DEFAULT);
        tr1 = tr @ [H5Aopen obj name H5P_DEFAULT];
        space = ret lib tr1 (H5Aget_space attr);
        tr2 = tr1 @ [H5Aget_space attr];
        stored_ty = ret lib tr2 (H5Aget_type attr);
        tr3 = tr2 @ [H5Aget_type attr]
    in if is_valid lib tr1 attr \<and>
          obs lib tr2 (H5Sget_simple_extent_ndims space) = 0 \<and>
          0 < obs lib tr3 (H5Tequal stored_ty (ty v))
       then [H5Aread attr (ty v) (start v)] else [])"
proof (intro conjI)
  show "read_attribute lib obj name (v\<lparr>L_tot := L', slab := s'\<rparr>) tr =
      read_attribute lib obj name v tr"
    by (rule read_attribute_view_shape)
qed (rule read_attribute_succeeds read_attribute_succeeds_iff read_attribute_cases
      read_attribute_transfers)+

theorem read_attribute_ignores_view_shape_witness:
  "read_attribute example_lib 7 ''units'' example_view [] =
     (Inr (), [H5Aopen 7 ''units'' H5P_DEFAULT, H5Aget_space 1, H5Aget_type 1, H5Aread 1 10 4096]) \<and>
   read_attribute example_lib 7 ''units''
     (example_view\<lparr>L_tot := [], slab := \<lparr>offset = [], stride = [], count = [], block = []\<rparr>\<rparr>) [] =
   read_attribute example_lib 7 ''units'' example_view [] \<and>
   read_attribute (example_lib\<lparr>obs := \<lambda>tr q. 1\<rparr>) 7 ''units''
     (example_view\<lparr>L_tot := [], slab := \<lparr>offset = [], stride = [], count = [], block = []\<rparr>\<rparr>) [] =
     (Inl (Runtime_error ''Reading a scalar attribute and got rank !=0''),
      [H5Aopen 7 ''units'' H5P_DEFAULT, H5Aget_space 1]) \<and>
   read_attribute (example_lib\<lparr>obs := \<lambda>tr q. 0\<rparr>) 7 ''units'' example_view [] =
     (Inl (Runtime_error ''Type mismatch in reading attribute''),
      [H5Aopen 7 ''units'' H5P_DEFAULT, H5Aget_space 1, H5Aget_type 1]) \<and>
   read_attribute (example_lib\<lparr>is_valid := \<lambda>tr h. False\<rparr>) 7 ''units'' example_view [] =
     (Inl (Runtime_error ''Cannot open the attribute units''), [H5Aopen 7 ''units'' H5P_DEFAULT]) \<and>
   read_attribute (example_lib\<lparr>ret := \<lambda>tr c. int (length tr) - 3\<rparr>) 7 ''units''
     (example_view\<lparr>ty := - 2\<rparr>) [] =
     (Inl (Runtime_error ''Cannot open the attribute units''), [H5Aopen 7 ''units'' H5P_DEFAULT])"
  using read_attribute_ignores_view_shape
    [where lib = example_lib and obj = 7 and name = "''units''" and v = example_view
       and L' = "[]" and s' = "\<lparr>offset = [], stride = [], count = [], block = []\<rparr>"
       and tr = "[]"]
    read_attribute_ignores_view_shape
    [where lib = "example_lib\<lparr>obs := \<lambda>tr q. 1\<rparr>" and obj = 7 and name = "''units''"
       and v = "example_view\<lparr>L_tot := [], slab := \<lparr>offset = [], stride = [], count = [], block = []\<rparr>\<rparr>"
       and L' = "[]" and s' = "\<lparr>offset = [], stride = [], count = [], block = []\<rparr>"
       and tr = "[]"]
    read_attribute_ignores_view_shape
    [where lib = "example_lib\<lparr>obs := \<lambda>tr q. 0\<rparr>" and obj = 7 and name = "''units''"
       and v = example_view
       and L' = "[]" and s' = "\<lparr>offset = [], stride = [], count = [], block = []\<rparr>"
       and tr = "[]"]
    read_attribute_ignores_view_shape
    [where lib = "example_lib\<lparr>is_valid := \<lambda>tr h. False\<rparr>" and obj = 7 and name = "''units''"
       and v = example_view
       and L' = "[]" and s' = "\<lparr>offset = [], stride = [], count = [], block = []\<rparr>"
       and tr = "[]"]
    read_attribute_ignores_view_shape
    [where lib = "example_lib\<lparr>ret := \<lambda>tr c. int (length tr) - 3\<rparr>" and obj = 7
       and name = "''units''" and v = "example_view\<lparr>ty := - 2\<rparr>"
       and L' = "[]" and s' = "\<lparr>offset = [], stride = [], count = [], block = []\<rparr>"
       and tr = "[]"]
  by (simp add: Let_def example_lib_def example_view_def)

end
